theory Spec2Isabelle
  imports Complex_Main "HOL-Library.AList"
begin

section \<open>Python values, exceptions and runs\<close>

text \<open>
  The repository is a small asynchronous Python service.  The functions verified here are
  \<^verbatim>\<open>utils/health_check.py\<close> (the two probes and their aggregation),
  \<^verbatim>\<open>config/validation.py\<close> (the pre-flight validation) and
  \<^verbatim>\<open>launch/launch.py\<close> (the lifespan and the \<^verbatim>\<open>GET /health\<close> handler).

  Their values are dynamically typed dictionaries, so the model has one type of Python
  values.  A \<^verbatim>\<open>dict\<close> keeps insertion order, which the aggregation observes, hence an
  association list.
\<close>

datatype pyval =
    PNone
  | PBool bool
  | PInt int
  | PFloat real
  | PStr string
  | PList "pyval list"
  | PDict "(string \<times> pyval) list"

text \<open>Python truthiness, as \<^verbatim>\<open>not x\<close> and \<^verbatim>\<open>if x\<close> read it.\<close>

fun truthy :: "pyval \<Rightarrow> bool" where
  "truthy PNone = False"
| "truthy (PBool b) = b"
| "truthy (PInt i) = (i \<noteq> 0)"
| "truthy (PFloat r) = (r \<noteq> 0)"
| "truthy (PStr s) = (s \<noteq> [])"
| "truthy (PList xs) = (xs \<noteq> [])"
| "truthy (PDict d) = (d \<noteq> [])"

text \<open>
  What a \<^verbatim>\<open>raise\<close> carries.  \<open>Exception m\<close> is an instance of Python's \<^verbatim>\<open>Exception\<close>, the class
  every handler of the verified functions names (\<^verbatim>\<open>except Exception as e\<close>).  \<open>BaseException m\<close>
  is an instance of \<^verbatim>\<open>BaseException\<close> that is not an instance of \<^verbatim>\<open>Exception\<close>:
  \<^verbatim>\<open>asyncio.CancelledError\<close>, \<^verbatim>\<open>KeyboardInterrupt\<close>, \<^verbatim>\<open>SystemExit\<close>, \<^verbatim>\<open>GeneratorExit\<close>.  In both, \<open>m\<close>
  is \<^verbatim>\<open>str(e)\<close>.
\<close>

datatype exn = Exception string | BaseException string

fun str :: "exn \<Rightarrow> string" where
  "str (Exception m) = m"
| "str (BaseException m) = m"

text \<open>\<^verbatim>\<open>isinstance(e, Exception)\<close>\<close>

fun is_Exception :: "exn \<Rightarrow> bool" where
  "is_Exception (Exception m) = True"
| "is_Exception (BaseException m) = False"

text \<open>
  What a call does: it returns a value, raises, or never completes (an awaited call that
  stays suspended for ever; the repository sets no timeout).
\<close>

datatype 'a outcome = Returns 'a | Raises exn | Hangs

text \<open>
  What is observable of an execution besides its outcome: the calls it makes to code outside
  the verified functions (\<open>Call\<close>, by dotted name), the log lines it writes (\<open>Log\<close>, with the
  \<^verbatim>\<open>loguru\<close> method used), the \<^verbatim>\<open>yield\<close> of the lifespan, and the moment each verified function
  is entered (\<open>Enter\<close>).  A run is an outcome with the events so far, in order.
\<close>

datatype event = Enter string | Call string | Log string string | Yield

type_synonym 'a run = "'a outcome \<times> event list"

definition return :: "'a \<Rightarrow> 'a run" where
  "return a = (Returns a, [])"

definition raise :: "exn \<Rightarrow> 'a run" where
  "raise e = (Raises e, [])"

text \<open>Sequencing of two statements: the second runs only if the first returned.\<close>

definition bind :: "'a run \<Rightarrow> ('a \<Rightarrow> 'b run) \<Rightarrow> 'b run" where
  "bind m f =
     (case fst m of
        Returns a \<Rightarrow> (fst (f a), snd m @ snd (f a))
      | Raises e \<Rightarrow> (Raises e, snd m)
      | Hangs \<Rightarrow> (Hangs, snd m))"

text \<open>
  \<^verbatim>\<open>try: m  except Exception as e: h(e)\<close>.  The handler runs for an instance of \<^verbatim>\<open>Exception\<close>;
  anything else raised in the \<^verbatim>\<open>try\<close> block leaves the statement as it is.
\<close>

definition try_except :: "'a run \<Rightarrow> (exn \<Rightarrow> 'a run) \<Rightarrow> 'a run" where
  "try_except m h =
     (case fst m of
        Returns a \<Rightarrow> m
      | Raises e \<Rightarrow> (if is_Exception e then (fst (h e), snd m @ snd (h e)) else m)
      | Hangs \<Rightarrow> m)"

text \<open>
  \<^verbatim>\<open>try: m  finally: fin\<close>.  The \<^verbatim>\<open>finally\<close> block runs once the \<^verbatim>\<open>try\<close> block has returned or raised;
  the outcome of the \<^verbatim>\<open>try\<close> block stands unless the \<^verbatim>\<open>finally\<close> block itself raises or hangs.
\<close>

definition try_finally :: "'a run \<Rightarrow> unit run \<Rightarrow> 'a run" where
  "try_finally m fin =
     (case fst m of
        Hangs \<Rightarrow> m
      | _ \<Rightarrow>
         (case fst fin of
            Returns u \<Rightarrow> (fst m, snd m @ snd fin)
          | Raises e' \<Rightarrow> (Raises e', snd m @ snd fin)
          | Hangs \<Rightarrow> (Hangs, snd m @ snd fin)))"

definition enter :: "string \<Rightarrow> unit run" where
  "enter name = (Returns (), [Enter name])"

definition ext_call :: "string \<Rightarrow> 'a outcome \<Rightarrow> 'a run" where
  "ext_call name out = (out, [Call name])"

definition logger :: "string \<Rightarrow> string \<Rightarrow> unit run" where
  "logger method msg = (Returns (), [Log method msg])"

subsection \<open>Dictionary operations\<close>

text \<open>
  The texts of the errors below are those of CPython 3.11 and later; \<open>quoted s\<close> is \<open>s\<close> between
  single quotes, and \<open>type_name v\<close> is \<^verbatim>\<open>type(v).__name__\<close>.
\<close>

definition quoted :: "string \<Rightarrow> string" where
  "quoted s = CHR 0x27 # s @ [CHR 0x27]"

fun type_name :: "pyval \<Rightarrow> string" where
  "type_name PNone = ''NoneType''"
| "type_name (PBool b) = ''bool''"
| "type_name (PInt i) = ''int''"
| "type_name (PFloat r) = ''float''"
| "type_name (PStr s) = ''str''"
| "type_name (PList xs) = ''list''"
| "type_name (PDict d) = ''dict''"

text \<open>\<^verbatim>\<open>AttributeError\<close>: the object has no attribute of that name.\<close>

definition no_attribute :: "string \<Rightarrow> string \<Rightarrow> exn" where
  "no_attribute ty name =
     Exception (quoted ty @ '' object has no attribute '' @ quoted name)"

text \<open>
  \<^verbatim>\<open>d[k]\<close> with a string \<open>k\<close>: in a dictionary a missing key raises \<^verbatim>\<open>KeyError\<close>, whose \<^verbatim>\<open>str\<close> is
  the key's \<^verbatim>\<open>repr\<close>; every other value raises \<^verbatim>\<open>TypeError\<close>.
\<close>

fun getitem :: "pyval \<Rightarrow> string \<Rightarrow> pyval run" where
  "getitem (PDict d) k =
     (case map_of d k of
        Some v \<Rightarrow> return v
      | None \<Rightarrow> raise (Exception (quoted k)))"
| "getitem (PStr s) k =
     raise (Exception (''string indices must be integers, not '' @ quoted ''str''))"
| "getitem (PList xs) k =
     raise (Exception (''list indices must be integers or slices, not str''))"
| "getitem v k = raise (Exception (quoted (type_name v) @ '' object is not subscriptable''))"

text \<open>\<^verbatim>\<open>d[k] = v\<close>: an existing key keeps its position, a new key goes last.\<close>

fun setitem :: "pyval \<Rightarrow> string \<Rightarrow> pyval \<Rightarrow> pyval run" where
  "setitem (PDict d) k v = return (PDict (AList.update k v d))"
| "setitem (PList xs) k v =
     raise (Exception (''list indices must be integers or slices, not str''))"
| "setitem x k v =
     raise (Exception (quoted (type_name x) @ '' object does not support item assignment''))"

text \<open>\<^verbatim>\<open>d.get(k)\<close>: \<^verbatim>\<open>None\<close> for a missing key.\<close>

fun dict_get :: "pyval \<Rightarrow> string \<Rightarrow> pyval run" where
  "dict_get (PDict d) k =
     (case map_of d k of Some v \<Rightarrow> return v | None \<Rightarrow> return PNone)"
| "dict_get x k = raise (no_attribute (type_name x) ''get'')"

text \<open>\<^verbatim>\<open>d.items()\<close>, in insertion order.\<close>

fun items :: "pyval \<Rightarrow> (string \<times> pyval) list run" where
  "items (PDict d) = return d"
| "items x = raise (no_attribute (type_name x) ''items'')"

text \<open>\<^verbatim>\<open>xs[i]\<close> on a list: out of range raises \<^verbatim>\<open>IndexError\<close>.\<close>

definition list_getitem :: "'a list \<Rightarrow> nat \<Rightarrow> 'a run" where
  "list_getitem xs i =
     (if i < length xs then return (xs ! i)
      else raise (Exception ''list index out of range''))"

section \<open>The code outside the verified functions\<close>

text \<open>
  \<^verbatim>\<open>setting.setting\<close>, \<^verbatim>\<open>extensions.ext_manager\<close> and \<^verbatim>\<open>config.loguru\<close> are imported by the
  verified functions and are not part of them.  Each of their functions is called at most
  once in an execution of a verified function, so the outside world of one execution is the
  outcome of each of these calls.  The attributes read are exactly those the code reads.
\<close>

record vector_settings =
  platform :: pyval
  pgvector :: pyval
  qdrant :: pyval
  chroma :: pyval
  embedding_provider :: pyval
  embedding_model :: pyval

record settings =
  vector :: vector_settings

text \<open>
  The object \<^verbatim>\<open>ExtManager.vector.get_embedding_model()\<close> returns: two attributes and the
  awaited method \<^verbatim>\<open>create_embedding(texts)\<close>, a list of vectors.
\<close>

record embedding_client =
  model_type :: pyval
  model_name :: pyval
  create_embedding :: "string list \<Rightarrow> real list list outcome"

text \<open>
  \<open>get_we0_index_settings\<close> returns a settings object or a false value (\<open>None\<close>);
  \<open>environ\<close> is \<^verbatim>\<open>os.environ\<close>; \<open>loop_time\<close> is \<^verbatim>\<open>asyncio.get_event_loop().time()\<close>;
  \<open>serving\<close> is what happens at the lifespan's \<^verbatim>\<open>yield\<close> (the application runs, then
  control comes back, normally or with an exception thrown in).
\<close>

record env =
  get_we0_index_settings :: "settings option outcome"
  init_app :: "unit outcome"
  get_dimension :: "pyval outcome"
  get_embedding_model :: "embedding_client outcome"
  loop_time :: real
  environ :: "string \<rightharpoonup> string"
  Log_start :: "unit outcome"
  Log_close :: "unit outcome"
  init_vector :: "unit outcome"
  serving :: "unit outcome"

text \<open>\<^verbatim>\<open>settings.vector\<close>: on \<^verbatim>\<open>None\<close> an \<^verbatim>\<open>AttributeError\<close>.\<close>

fun attr_vector :: "settings option \<Rightarrow> vector_settings run" where
  "attr_vector (Some s) = return (vector s)"
| "attr_vector None = raise (no_attribute ''NoneType'' ''vector'')"

section \<open>utils/health_check.py\<close>

definition check_vector_database_health :: "env \<Rightarrow> pyval run" where
  "check_vector_database_health w =
     bind (enter ''check_vector_database_health'') (\<lambda>_.
     try_except
       (bind (ext_call ''get_we0_index_settings'' (get_we0_index_settings w)) (\<lambda>settings.
        bind (ext_call ''ExtManager.vector.init_app'' (init_app w)) (\<lambda>_.
        bind (ext_call ''ExtManager.vector.get_dimension'' (get_dimension w)) (\<lambda>dimension.
        bind (attr_vector settings) (\<lambda>v.
        return (PDict
          [(''status'', PStr ''healthy''),
           (''platform'', platform v),
           (''dimension'', dimension),
           (''embedding_provider'', embedding_provider v),
           (''embedding_model'', embedding_model v)]))))))
       (\<lambda>e.
        bind (logger ''error'' (''Vector database health check failed: '' @ str e)) (\<lambda>_.
        return (PDict
          [(''status'', PStr ''unhealthy''),
           (''error'', PStr (str e))]))))"

definition check_embedding_service_health :: "env \<Rightarrow> pyval run" where
  "check_embedding_service_health w =
     bind (enter ''check_embedding_service_health'') (\<lambda>_.
     try_except
       (bind (ext_call ''ExtManager.vector.get_embedding_model'' (get_embedding_model w)) (\<lambda>embedding_model.
        bind (ext_call ''embedding_model.create_embedding''
                (create_embedding embedding_model [''health check test''])) (\<lambda>test_embeddings.
        bind (if test_embeddings \<noteq> []
              then bind (list_getitem test_embeddings 0) (\<lambda>v. return (PInt (int (length v))))
              else return (PInt 0)) (\<lambda>dimension.
        return (PDict
          [(''status'', PStr ''healthy''),
           (''dimension'', dimension),
           (''provider'', model_type embedding_model),
           (''model'', model_name embedding_model)])))))
       (\<lambda>e.
        bind (logger ''error'' (''Embedding service health check failed: '' @ str e)) (\<lambda>_.
        return (PDict
          [(''status'', PStr ''unhealthy''),
           (''error'', PStr (str e))]))))"

text \<open>
  The comprehension
  \<^verbatim>\<open>[service for service, health in d.items() if health.get("status") != "healthy"]\<close>.
\<close>

fun unhealthy_of :: "(string \<times> pyval) list \<Rightarrow> string list run" where
  "unhealthy_of [] = return []"
| "unhealthy_of ((service, health) # rest) =
     bind (dict_get health ''status'') (\<lambda>status.
     bind (unhealthy_of rest) (\<lambda>more.
     return (if status \<noteq> PStr ''healthy'' then service # more else more)))"

text \<open>\<^verbatim>\<open>results["services"][name] = health\<close>\<close>

definition set_service :: "pyval \<Rightarrow> string \<Rightarrow> pyval \<Rightarrow> pyval run" where
  "set_service results name health =
     bind (getitem results ''services'') (\<lambda>services.
     bind (setitem services name health) (\<lambda>services'.
     setitem results ''services'' services'))"

definition comprehensive_health_check :: "env \<Rightarrow> pyval run" where
  "comprehensive_health_check w =
     bind (enter ''comprehensive_health_check'') (\<lambda>_.
     bind (return (PDict
       [(''overall_status'', PStr ''healthy''),
        (''timestamp'', PFloat (loop_time w)),
        (''services'', PDict [])])) (\<lambda>results.
     bind (check_vector_database_health w) (\<lambda>vector_health.
     bind (set_service results ''vector_database'' vector_health) (\<lambda>results.
     bind (check_embedding_service_health w) (\<lambda>embedding_health.
     bind (set_service results ''embedding_service'' embedding_health) (\<lambda>results.
     bind (getitem results ''services'') (\<lambda>services.
     bind (items services) (\<lambda>its.
     bind (unhealthy_of its) (\<lambda>unhealthy_services.
     if unhealthy_services \<noteq> []
     then
       bind (setitem results ''overall_status'' (PStr ''unhealthy'')) (\<lambda>results.
       bind (setitem results ''unhealthy_services'' (PList (map PStr unhealthy_services))) (\<lambda>results.
       return results))
     else return results)))))))))"

section \<open>config/validation.py\<close>

text \<open>\<^verbatim>\<open>not os.environ.get(name)\<close>: the variable is unset, or set to the empty string.\<close>

definition environ_lacks :: "env \<Rightarrow> string \<Rightarrow> bool" where
  "environ_lacks w name = (case environ w name of None \<Rightarrow> True | Some v \<Rightarrow> v = [])"

text \<open>
  The statements from \<^verbatim>\<open># Check API keys\<close> to the final \<^verbatim>\<open>return True\<close>, which every branch of
  the platform check that does not return \<open>False\<close> falls through to.
\<close>

definition check_api_keys :: "env \<Rightarrow> vector_settings \<Rightarrow> bool run" where
  "check_api_keys w v =
     bind (if embedding_provider v = PStr ''openai''
           then (if environ_lacks w ''OPENAI_API_KEY''
                 then logger ''warning'' ''OPENAI_API_KEY not set''
                 else return ())
           else return ()) (\<lambda>_.
     bind (if embedding_provider v = PStr ''jina''
           then (if environ_lacks w ''JINA_API_KEY''
                 then logger ''warning'' ''JINA_API_KEY not set''
                 else return ())
           else return ()) (\<lambda>_.
     bind (logger ''info'' ''Environment validation completed'') (\<lambda>_.
     return True)))"

text \<open>
  The import of \<open>get_we0_index_settings\<close> stands inside the \<^verbatim>\<open>try\<close> block, so a failing import
  is a raising call.
\<close>

definition validate_environment :: "env \<Rightarrow> bool run" where
  "validate_environment w =
     bind (enter ''validate_environment'') (\<lambda>_.
     try_except
       (bind (ext_call ''get_we0_index_settings'' (get_we0_index_settings w)) (\<lambda>settings.
        if settings = None
        then bind (logger ''error'' ''Failed to load settings'') (\<lambda>_. return False)
        else
          bind (attr_vector settings) (\<lambda>v.
          if platform v = PStr ''pgvector''
          then (if \<not> truthy (pgvector v)
                then bind (logger ''error'' ''PgVector configuration is missing'') (\<lambda>_. return False)
                else check_api_keys w v)
          else if platform v = PStr ''qdrant''
          then (if \<not> truthy (qdrant v)
                then bind (logger ''error'' ''Qdrant configuration is missing'') (\<lambda>_. return False)
                else check_api_keys w v)
          else if platform v = PStr ''chroma''
          then (if \<not> truthy (chroma v)
                then bind (logger ''error'' ''Chroma configuration is missing'') (\<lambda>_. return False)
                else check_api_keys w v)
          else check_api_keys w v)))
       (\<lambda>e.
        bind (logger ''error'' (''Validation failed: '' @ str e)) (\<lambda>_.
        return False)))"

section \<open>launch/launch.py\<close>

text \<open>\<^verbatim>\<open>await asyncio.gather(ext_manager.init_vector())\<close>; the gathered list is dropped.\<close>

definition initialize_extensions :: "env \<Rightarrow> unit run" where
  "initialize_extensions w =
     bind (enter ''initialize_extensions'') (\<lambda>_.
     bind (ext_call ''ext_manager.init_vector'' (init_vector w)) (\<lambda>_.
     return ()))"

text \<open>The body of \<open>close_extensions\<close> is the single expression \<^verbatim>\<open>...\<close>.\<close>

definition close_extensions :: "unit run" where
  "close_extensions = bind (enter ''close_extensions'') (\<lambda>_. return ())"

text \<open>
  The \<^verbatim>\<open>yield\<close> of an \<^verbatim>\<open>asynccontextmanager\<close>: the generator is suspended while the application
  runs, and resumed (or thrown into) when it stops.
\<close>

definition yield_to :: "unit outcome \<Rightarrow> unit run" where
  "yield_to app = (app, [Yield])"

definition lifespan :: "env \<Rightarrow> unit run" where
  "lifespan w =
     bind (enter ''lifespan'') (\<lambda>_.
     try_finally
       (bind (ext_call ''Log.start'' (Log_start w)) (\<lambda>_.
        bind (initialize_extensions w) (\<lambda>_.
        yield_to (serving w))))
       (bind close_extensions (\<lambda>_.
        ext_call ''Log.close'' (Log_close w))))"

text \<open>
  A response is its body and its status code; \<open>JSONResponse\<close> builds one.  Every value of
  \<open>pyval\<close> has a JSON rendering, so the constructor does not fail.
\<close>

record response =
  content :: pyval
  status_code :: int

definition JSONResponse :: "pyval \<Rightarrow> int \<Rightarrow> response" where
  "JSONResponse c s = \<lparr>content = c, status_code = s\<rparr>"

text \<open>
  The handler of \<^verbatim>\<open>GET /health\<close>.  Its first argument is the run of the call
  \<^verbatim>\<open>await comprehensive_health_check()\<close>, which Python looks up by name when the handler runs;
  \<open>health_check\<close> is the handler with the function of this repository.
\<close>

definition health_check_with :: "pyval run \<Rightarrow> response run" where
  "health_check_with awaited =
     bind (enter ''health_check'') (\<lambda>_.
     try_except
       (bind awaited (\<lambda>health_status.
        bind (getitem health_status ''overall_status'') (\<lambda>overall_status.
        bind (return (if overall_status = PStr ''healthy'' then 200 else 503)) (\<lambda>status_code.
        return (JSONResponse health_status status_code)))))
       (\<lambda>e.
        bind (logger ''exception'' ''Health check failed'') (\<lambda>_.
        return (JSONResponse
          (PDict [(''status'', PStr ''unhealthy''), (''error'', PStr (str e))])
          503))))"

definition health_check :: "env \<Rightarrow> response run" where
  "health_check w = health_check_with (comprehensive_health_check w)"

section \<open>Reading a report\<close>

text \<open>
  The vocabulary of the properties below.  \<open>field r k\<close> is the value of key \<open>k\<close> in the
  dictionary \<open>r\<close>, \<open>None\<close> when the key is absent; \<open>service_entries r\<close> are the items of
  \<^verbatim>\<open>r["services"]\<close> in order; an entry is healthy when its \<^verbatim>\<open>status\<close> is \<^verbatim>\<open>"healthy"\<close>.
\<close>

fun field :: "pyval \<Rightarrow> string \<Rightarrow> pyval option" where
  "field (PDict d) k = map_of d k"
| "field v k = None"

fun entries :: "pyval option \<Rightarrow> (string \<times> pyval) list" where
  "entries (Some (PDict d)) = d"
| "entries v = []"

definition service_entries :: "pyval \<Rightarrow> (string \<times> pyval) list" where
  "service_entries r = entries (field r ''services'')"

definition healthy_entry :: "pyval \<Rightarrow> bool" where
  "healthy_entry h = (field h ''status'' = Some (PStr ''healthy''))"

text \<open>The record a probe returns for a caught exception.\<close>

definition unhealthy_record :: "exn \<Rightarrow> pyval" where
  "unhealthy_record e = PDict [(''status'', PStr ''unhealthy''), (''error'', PStr (str e))]"

text \<open>
  A probe succeeds when every call it makes returns (for the vector probe: the settings are
  an object, \<open>init_app\<close> and \<open>get_dimension\<close> return; for the embedding probe: the model is
  obtained and \<open>create_embedding\<close> returns).
\<close>

definition vector_probe_succeeds :: "env \<Rightarrow> bool" where
  "vector_probe_succeeds w =
     (case get_we0_index_settings w of
        Returns (Some s) \<Rightarrow>
          (case init_app w of
             Returns u \<Rightarrow> (case get_dimension w of Returns d \<Rightarrow> True | _ \<Rightarrow> False)
           | _ \<Rightarrow> False)
      | _ \<Rightarrow> False)"

definition embedding_probe_succeeds :: "env \<Rightarrow> bool" where
  "embedding_probe_succeeds w =
     (case get_embedding_model w of
        Returns m \<Rightarrow>
          (case create_embedding m [''health check test''] of Returns v \<Rightarrow> True | _ \<Rightarrow> False)
      | _ \<Rightarrow> False)"

fun completes :: "'a outcome \<Rightarrow> bool" where
  "completes Hangs = False"
| "completes (Returns a) = True"
| "completes (Raises e) = True"

text \<open>
  The exception with which a probe's calls end: \<open>raised_in_vector_probe w e\<close> holds when the
  first call of the vector probe that does not return raises \<open>e\<close>, and likewise for the
  embedding probe.
\<close>

definition raised_in_vector_probe :: "env \<Rightarrow> exn \<Rightarrow> bool" where
  "raised_in_vector_probe w e =
     (case get_we0_index_settings w of
        Raises x \<Rightarrow> x = e
      | Hangs \<Rightarrow> False
      | Returns s \<Rightarrow>
          (case init_app w of
             Raises x \<Rightarrow> x = e
           | Hangs \<Rightarrow> False
           | Returns u \<Rightarrow>
               (case get_dimension w of Raises x \<Rightarrow> x = e | Hangs \<Rightarrow> False | Returns d \<Rightarrow> False)))"

definition raised_in_embedding_probe :: "env \<Rightarrow> exn \<Rightarrow> bool" where
  "raised_in_embedding_probe w e =
     (case get_embedding_model w of
        Raises x \<Rightarrow> x = e
      | Hangs \<Rightarrow> False
      | Returns m \<Rightarrow>
          (case create_embedding m [''health check test''] of
             Raises x \<Rightarrow> x = e | Hangs \<Rightarrow> False | Returns v \<Rightarrow> False))"

text \<open>A call settles when it returns or raises an instance of \<^verbatim>\<open>Exception\<close>.\<close>

fun settles :: "'a outcome \<Rightarrow> bool" where
  "settles (Returns a) = True"
| "settles (Raises e) = is_Exception e"
| "settles Hangs = False"

text \<open>Every call a health check can make settles.\<close>

definition every_call_settles :: "env \<Rightarrow> bool" where
  "every_call_settles w =
     (settles (get_we0_index_settings w) \<and> settles (init_app w) \<and>
      settles (get_dimension w) \<and>
      (case get_embedding_model w of
         Returns m \<Rightarrow> settles (create_embedding m [''health check test''])
       | Raises e \<Rightarrow> is_Exception e
       | Hangs \<Rightarrow> False))"

fun is_warning :: "event \<Rightarrow> bool" where
  "is_warning (Log method msg) = (method = ''warning'')"
| "is_warning ev = False"

section \<open>Concrete worlds\<close>

text \<open>A deployment where every call succeeds: pgvector, dimension 1536, an OpenAI model.\<close>

definition ready_settings :: settings where
  "ready_settings =
     \<lparr>vector =
        \<lparr>platform = PStr ''pgvector'',
         pgvector = PDict [(''host'', PStr ''localhost'')],
         qdrant = PNone,
         chroma = PNone,
         embedding_provider = PStr ''openai'',
         embedding_model = PStr ''text-embedding-3-small''\<rparr>\<rparr>"

definition ready_client :: embedding_client where
  "ready_client =
     \<lparr>model_type = PStr ''openai'',
      model_name = PStr ''text-embedding-3-small'',
      create_embedding = (\<lambda>texts. Returns (map (\<lambda>t. replicate 1536 0) texts))\<rparr>"

definition ready_env :: env where
  "ready_env =
     \<lparr>get_we0_index_settings = Returns (Some ready_settings),
      init_app = Returns (),
      get_dimension = Returns (PInt 1536),
      get_embedding_model = Returns ready_client,
      loop_time = 0,
      environ = Map.empty,
      Log_start = Returns (),
      Log_close = Returns (),
      init_vector = Returns (),
      serving = Returns ()\<rparr>"

text \<open>The exceptions of the scenarios.\<close>

definition refused :: exn where
  "refused = Exception ''connection refused''"

definition unauthorized :: exn where
  "unauthorized = Exception ''401 Unauthorized''"

text \<open>\<^verbatim>\<open>asyncio.CancelledError()\<close>, raised at an \<^verbatim>\<open>await\<close> of a task that is cancelled.\<close>

definition cancelled :: exn where
  "cancelled = BaseException []"

text \<open>The vector database accepts the connection and then never answers \<open>init_app\<close>.\<close>

definition stalled_env :: env where
  "stalled_env = ready_env\<lparr>init_app := Hangs\<rparr>"

text \<open>The task of the health check is cancelled while it awaits \<open>init_app\<close>.\<close>

definition cancelled_env :: env where
  "cancelled_env = ready_env\<lparr>init_app := Raises cancelled\<rparr>"

text \<open>Both probes fail: the database refuses, the embedding provider rejects the key.\<close>

definition failing_env :: env where
  "failing_env =
     ready_env\<lparr>init_app := Raises refused, get_embedding_model := Raises unauthorized\<rparr>"

text \<open>Only the embedding probe fails, inside \<open>create_embedding\<close>.\<close>

definition rejected_env :: env where
  "rejected_env =
     ready_env\<lparr>get_embedding_model :=
       Returns (ready_client\<lparr>create_embedding := (\<lambda>texts. Raises unauthorized)\<rparr>)\<rparr>"

text \<open>The embedding provider answers with an empty result set.\<close>

definition empty_result_env :: env where
  "empty_result_env =
     ready_env\<lparr>get_embedding_model :=
       Returns (ready_client\<lparr>create_embedding := (\<lambda>texts. Returns [])\<rparr>)\<rparr>"

text \<open>Settings that select pgvector and carry no pgvector configuration.\<close>

definition unconfigured_env :: env where
  "unconfigured_env =
     ready_env\<lparr>get_we0_index_settings :=
       Returns (Some (ready_settings\<lparr>vector := (vector ready_settings)\<lparr>pgvector := PNone\<rparr>\<rparr>))\<rparr>"

text \<open>Settings that select a platform the validation does not know, with no configuration.\<close>

definition unknown_platform_env :: env where
  "unknown_platform_env =
     ready_env\<lparr>get_we0_index_settings :=
       Returns (Some (ready_settings\<lparr>vector :=
         (vector ready_settings)\<lparr>platform := PStr ''milvus'', pgvector := PNone\<rparr>\<rparr>))\<rparr>"

section \<open>Runs: the outcome and the events of a sequence\<close>

lemmas run_defs = return_def raise_def enter_def ext_call_def logger_def

lemma fst_bind:
  "fst (bind m f) =
     (case fst m of Returns a \<Rightarrow> fst (f a) | Raises e \<Rightarrow> Raises e | Hangs \<Rightarrow> Hangs)"
  by (simp add: bind_def split: outcome.splits)

lemma snd_bind:
  "snd (bind m f) =
     (case fst m of Returns a \<Rightarrow> snd m @ snd (f a) | Raises e \<Rightarrow> snd m | Hangs \<Rightarrow> snd m)"
  by (simp add: bind_def split: outcome.splits)

lemma fst_try_except:
  "fst (try_except m h) =
     (case fst m of
        Returns a \<Rightarrow> Returns a
      | Raises e \<Rightarrow> (if is_Exception e then fst (h e) else Raises e)
      | Hangs \<Rightarrow> Hangs)"
  by (simp add: try_except_def split: outcome.splits)

lemma snd_try_except:
  "snd (try_except m h) =
     (case fst m of
        Returns a \<Rightarrow> snd m
      | Raises e \<Rightarrow> (if is_Exception e then snd m @ snd (h e) else snd m)
      | Hangs \<Rightarrow> snd m)"
  by (simp add: try_except_def split: outcome.splits)

lemma fst_try_finally:
  "fst (try_finally m fin) =
     (case fst m of
        Hangs \<Rightarrow> Hangs
      | Returns a \<Rightarrow>
          (case fst fin of Returns u \<Rightarrow> Returns a | Raises e' \<Rightarrow> Raises e' | Hangs \<Rightarrow> Hangs)
      | Raises e \<Rightarrow>
          (case fst fin of Returns u \<Rightarrow> Raises e | Raises e' \<Rightarrow> Raises e' | Hangs \<Rightarrow> Hangs))"
  by (simp add: try_finally_def split: outcome.splits)

lemma snd_try_finally:
  "snd (try_finally m fin) = (case fst m of Hangs \<Rightarrow> snd m | _ \<Rightarrow> snd m @ snd fin)"
  by (simp add: try_finally_def split: outcome.splits)

lemmas run_simps = fst_bind snd_bind fst_try_except snd_try_except run_defs

lemmas world_defs = ready_env_def ready_client_def ready_settings_def stalled_env_def
  cancelled_env_def failing_env_def rejected_env_def empty_result_env_def unconfigured_env_def
  unknown_platform_env_def refused_def unauthorized_def cancelled_def

lemmas health_defs = comprehensive_health_check_def check_vector_database_health_def
  check_embedding_service_health_def set_service_def list_getitem_def

lemmas lifespan_defs = lifespan_def initialize_extensions_def close_extensions_def yield_to_def

lemma attr_vector_cases:
  "attr_vector x =
     (case x of Some s \<Rightarrow> return (vector s)
      | None \<Rightarrow> raise (no_attribute ''NoneType'' ''vector''))"
  by (cases x) simp_all

lemma is_Exception_no_attribute: "is_Exception (no_attribute ty name)"
  by (simp add: no_attribute_def)

lemma getitem_outcome:
  "(\<exists>v. getitem r k = (Returns v, [])) \<or> (\<exists>m. getitem r k = (Raises (Exception m), []))"
  by (cases r) (auto simp: run_defs split: option.splits)

lemma field_getitem: "field r k = Some v \<Longrightarrow> getitem r k = return v"
  by (cases r) simp_all

lemma exn_cases: "is_Exception x \<or> (\<exists>m. x = BaseException m)"
  by (cases x) simp_all

section \<open>The probes\<close>

text \<open>
  A probe has four possible outcomes: it hangs, it raises something that is not an instance
  of \<^verbatim>\<open>Exception\<close>, it returns a record whose first key is \<^verbatim>\<open>status\<close> with value \<^verbatim>\<open>"healthy"\<close>
  (exactly when it succeeds), or it returns the two-key unhealthy record.
\<close>

lemma vector_result:
  "fst (check_vector_database_health w) = Hangs \<and> \<not> vector_probe_succeeds w
   \<or> (\<exists>m. fst (check_vector_database_health w) = Raises (BaseException m)
           \<and> \<not> vector_probe_succeeds w)
   \<or> (\<exists>d. fst (check_vector_database_health w) =
             Returns (PDict ((''status'', PStr ''healthy'') # d))
           \<and> vector_probe_succeeds w)
   \<or> (\<exists>m. fst (check_vector_database_health w) =
             Returns (PDict [(''status'', PStr ''unhealthy''), (''error'', PStr m)])
           \<and> \<not> vector_probe_succeeds w)"
proof -
  have e: "\<And>x. is_Exception x \<or> (\<exists>m. x = BaseException m)"
    by (case_tac x) simp_all
  show ?thesis
    unfolding check_vector_database_health_def vector_probe_succeeds_def
    using e
    by (cases "get_we0_index_settings w"; cases "init_app w"; cases "get_dimension w")
       (auto simp: run_simps attr_vector_cases is_Exception_no_attribute split: option.splits)
qed

lemma embedding_result:
  "fst (check_embedding_service_health w) = Hangs \<and> \<not> embedding_probe_succeeds w
   \<or> (\<exists>m. fst (check_embedding_service_health w) = Raises (BaseException m)
           \<and> \<not> embedding_probe_succeeds w)
   \<or> (\<exists>d. fst (check_embedding_service_health w) =
             Returns (PDict ((''status'', PStr ''healthy'') # d))
           \<and> embedding_probe_succeeds w)
   \<or> (\<exists>m. fst (check_embedding_service_health w) =
             Returns (PDict [(''status'', PStr ''unhealthy''), (''error'', PStr m)])
           \<and> \<not> embedding_probe_succeeds w)"
proof (cases "get_embedding_model w")
  case (Returns c)
  then show ?thesis
    using exn_cases
    unfolding check_embedding_service_health_def embedding_probe_succeeds_def
    by (cases "create_embedding c [''health check test'']")
       (auto simp: run_simps list_getitem_def)
next
  case (Raises x)
  then show ?thesis
    using exn_cases[of x]
    unfolding check_embedding_service_health_def embedding_probe_succeeds_def
    by (auto simp: run_simps)
next
  case Hangs
  then show ?thesis
    unfolding check_embedding_service_health_def embedding_probe_succeeds_def
    by (simp add: run_simps)
qed

lemma vector_status:
  "fst (check_vector_database_health w) = Hangs
   \<or> (\<exists>m. fst (check_vector_database_health w) = Raises (BaseException m))
   \<or> (\<exists>d. fst (check_vector_database_health w) = Returns (PDict d)
         \<and> map_of d ''status'' =
             Some (PStr (if vector_probe_succeeds w then ''healthy'' else ''unhealthy'')))"
  using vector_result[of w] by auto

lemma embedding_status:
  "fst (check_embedding_service_health w) = Hangs
   \<or> (\<exists>m. fst (check_embedding_service_health w) = Raises (BaseException m))
   \<or> (\<exists>d. fst (check_embedding_service_health w) = Returns (PDict d)
         \<and> map_of d ''status'' =
             Some (PStr (if embedding_probe_succeeds w then ''healthy'' else ''unhealthy'')))"
  using embedding_result[of w] by auto

text \<open>An instance of \<^verbatim>\<open>Exception\<close> raised by a call inside a probe ends in the unhealthy record.\<close>

lemma vector_catches:
  "is_Exception e \<Longrightarrow> get_we0_index_settings w = Raises e
     \<Longrightarrow> fst (check_vector_database_health w) = Returns (unhealthy_record e)"
  "is_Exception e \<Longrightarrow> get_we0_index_settings w = Returns s \<Longrightarrow> init_app w = Raises e
     \<Longrightarrow> fst (check_vector_database_health w) = Returns (unhealthy_record e)"
  "is_Exception e \<Longrightarrow> get_we0_index_settings w = Returns s \<Longrightarrow> init_app w = Returns ()
     \<Longrightarrow> get_dimension w = Raises e
     \<Longrightarrow> fst (check_vector_database_health w) = Returns (unhealthy_record e)"
  "get_we0_index_settings w = Returns None \<Longrightarrow> init_app w = Returns ()
     \<Longrightarrow> get_dimension w = Returns d
     \<Longrightarrow> fst (check_vector_database_health w)
           = Returns (unhealthy_record (no_attribute ''NoneType'' ''vector''))"
  by (simp_all add: check_vector_database_health_def run_simps unhealthy_record_def
        is_Exception_no_attribute)

lemma embedding_catches:
  "is_Exception e \<Longrightarrow> get_embedding_model w = Raises e
     \<Longrightarrow> fst (check_embedding_service_health w) = Returns (unhealthy_record e)"
  "is_Exception e \<Longrightarrow> get_embedding_model w = Returns m
     \<Longrightarrow> create_embedding m [''health check test''] = Raises e
     \<Longrightarrow> fst (check_embedding_service_health w) = Returns (unhealthy_record e)"
  by (simp_all add: check_embedding_service_health_def run_simps unhealthy_record_def)

text \<open>What is not an instance of \<^verbatim>\<open>Exception\<close> leaves the probe.\<close>

lemma vector_escapes:
  "\<not> is_Exception e \<Longrightarrow> get_we0_index_settings w = Raises e
     \<Longrightarrow> fst (check_vector_database_health w) = Raises e"
  "\<not> is_Exception e \<Longrightarrow> get_we0_index_settings w = Returns s \<Longrightarrow> init_app w = Raises e
     \<Longrightarrow> fst (check_vector_database_health w) = Raises e"
  "\<not> is_Exception e \<Longrightarrow> get_we0_index_settings w = Returns s \<Longrightarrow> init_app w = Returns ()
     \<Longrightarrow> get_dimension w = Raises e
     \<Longrightarrow> fst (check_vector_database_health w) = Raises e"
  by (simp_all add: check_vector_database_health_def run_simps)

lemma embedding_escapes:
  "\<not> is_Exception e \<Longrightarrow> get_embedding_model w = Raises e
     \<Longrightarrow> fst (check_embedding_service_health w) = Raises e"
  "\<not> is_Exception e \<Longrightarrow> get_embedding_model w = Returns m
     \<Longrightarrow> create_embedding m [''health check test''] = Raises e
     \<Longrightarrow> fst (check_embedding_service_health w) = Raises e"
  by (simp_all add: check_embedding_service_health_def run_simps)

lemma raised_in_vector_probe_result:
  "raised_in_vector_probe w e \<Longrightarrow>
     fst (check_vector_database_health w)
       = (if is_Exception e then Returns (unhealthy_record e) else Raises e)"
  unfolding raised_in_vector_probe_def check_vector_database_health_def
  by (cases "get_we0_index_settings w"; cases "init_app w"; cases "get_dimension w")
     (simp_all add: run_simps unhealthy_record_def)

lemma raised_in_embedding_probe_result:
  "raised_in_embedding_probe w e \<Longrightarrow>
     fst (check_embedding_service_health w)
       = (if is_Exception e then Returns (unhealthy_record e) else Raises e)"
proof (cases "get_embedding_model w")
  case (Returns c)
  assume "raised_in_embedding_probe w e"
  with Returns show ?thesis
    unfolding raised_in_embedding_probe_def check_embedding_service_health_def
    by (cases "create_embedding c [''health check test'']")
       (simp_all add: run_simps unhealthy_record_def)
next
  case (Raises x)
  assume "raised_in_embedding_probe w e"
  with Raises show ?thesis
    unfolding raised_in_embedding_probe_def check_embedding_service_health_def
    by (simp add: run_simps unhealthy_record_def)
next
  case Hangs
  assume "raised_in_embedding_probe w e"
  with Hangs show ?thesis by (simp add: raised_in_embedding_probe_def)
qed

text \<open>A probe returns when its calls settle.\<close>

lemma settles_cases:
  "settles x \<Longrightarrow> (\<exists>a. x = Returns a) \<or> (\<exists>e. x = Raises e \<and> is_Exception e)"
  by (cases x) simp_all

lemma vector_probe_returns:
  assumes "every_call_settles w"
  shows "\<exists>vh. fst (check_vector_database_health w) = Returns vh"
proof -
  from assms have "settles (get_we0_index_settings w)" "settles (init_app w)"
    "settles (get_dimension w)"
    by (simp_all add: every_call_settles_def)
  then show ?thesis
    unfolding check_vector_database_health_def
    by (cases "get_we0_index_settings w"; cases "init_app w"; cases "get_dimension w")
       (auto simp: run_simps attr_vector_cases is_Exception_no_attribute split: option.splits)
qed

lemma embedding_probe_returns:
  assumes "every_call_settles w"
  shows "\<exists>eh. fst (check_embedding_service_health w) = Returns eh"
proof (cases "get_embedding_model w")
  case (Returns c)
  with assms have "settles (create_embedding c [''health check test''])"
    by (simp add: every_call_settles_def)
  with Returns show ?thesis
    unfolding check_embedding_service_health_def
    by (cases "create_embedding c [''health check test'']")
       (auto simp: run_simps list_getitem_def)
next
  case (Raises x)
  with assms show ?thesis
    unfolding check_embedding_service_health_def
    by (simp add: every_call_settles_def run_simps)
next
  case Hangs
  with assms show ?thesis by (simp add: every_call_settles_def)
qed

section \<open>The aggregated report\<close>

text \<open>The report composed from the records of two probes that returned.\<close>

lemma report_of_probes:
  assumes "fst (check_vector_database_health w) = Returns (PDict dv)"
    and "fst (check_embedding_service_health w) = Returns (PDict de)"
    and "map_of dv ''status'' = Some (PStr (if okv then ''healthy'' else ''unhealthy''))"
    and "map_of de ''status'' = Some (PStr (if oke then ''healthy'' else ''unhealthy''))"
  shows "fst (comprehensive_health_check w) = Returns (PDict
     ([(''overall_status'', PStr (if okv \<and> oke then ''healthy'' else ''unhealthy'')),
       (''timestamp'', PFloat (loop_time w)),
       (''services'', PDict [(''vector_database'', PDict dv), (''embedding_service'', PDict de)])]
      @ (if okv \<and> oke then []
         else [(''unhealthy_services'', PList (map PStr
                 ((if okv then [] else [''vector_database''])
                  @ (if oke then [] else [''embedding_service'']))))])))"
  using assms
  by (cases okv; cases oke)
     (simp_all add: comprehensive_health_check_def fst_bind run_defs set_service_def)

text \<open>
  The check ends as the first probe that does not return ends; when both probes return, it
  returns a report whose \<^verbatim>\<open>services\<close> are the records the two probes returned, under their
  names and in the order of the calls, with the overall status and the list of unhealthy
  services computed from them.
\<close>

lemma report_shape:
  "fst (check_vector_database_health w) = Hangs \<and> fst (comprehensive_health_check w) = Hangs
   \<or> (\<exists>m. fst (check_vector_database_health w) = Raises (BaseException m)
         \<and> fst (comprehensive_health_check w) = Raises (BaseException m))
   \<or> (\<exists>vh. fst (check_vector_database_health w) = Returns vh
         \<and> fst (check_embedding_service_health w) = Hangs
         \<and> fst (comprehensive_health_check w) = Hangs)
   \<or> (\<exists>vh m. fst (check_vector_database_health w) = Returns vh
         \<and> fst (check_embedding_service_health w) = Raises (BaseException m)
         \<and> fst (comprehensive_health_check w) = Raises (BaseException m))
   \<or> (\<exists>r vh eh. fst (comprehensive_health_check w) = Returns r
         \<and> fst (check_vector_database_health w) = Returns vh
         \<and> fst (check_embedding_service_health w) = Returns eh
         \<and> healthy_entry vh = vector_probe_succeeds w
         \<and> healthy_entry eh = embedding_probe_succeeds w
         \<and> service_entries r = [(''vector_database'', vh), (''embedding_service'', eh)]
         \<and> field r ''overall_status'' =
              Some (PStr (if healthy_entry vh \<and> healthy_entry eh then ''healthy''
                          else ''unhealthy''))
         \<and> field r ''unhealthy_services'' =
              (if healthy_entry vh \<and> healthy_entry eh then None
               else Some (PList (map PStr (map fst (filter (\<lambda>(name, h). \<not> healthy_entry h)
                      [(''vector_database'', vh), (''embedding_service'', eh)]))))))"
proof -
  consider (vh) "fst (check_vector_database_health w) = Hangs"
    | (vr) m where "fst (check_vector_database_health w) = Raises (BaseException m)"
    | (vd) dv where "fst (check_vector_database_health w) = Returns (PDict dv)"
        "map_of dv ''status'' =
           Some (PStr (if vector_probe_succeeds w then ''healthy'' else ''unhealthy''))"
    using vector_status[of w] by blast
  then show ?thesis
  proof cases
    case vh
    then show ?thesis
      by (simp add: comprehensive_health_check_def fst_bind run_defs)
  next
    case vr
    then show ?thesis
      by (simp add: comprehensive_health_check_def fst_bind run_defs)
  next
    case vd
    consider (eh) "fst (check_embedding_service_health w) = Hangs"
      | (er) m where "fst (check_embedding_service_health w) = Raises (BaseException m)"
      | (ed) de where "fst (check_embedding_service_health w) = Returns (PDict de)"
          "map_of de ''status'' =
             Some (PStr (if embedding_probe_succeeds w then ''healthy'' else ''unhealthy''))"
      using embedding_status[of w] by blast
    then show ?thesis
    proof cases
      case eh
      with vd show ?thesis
        by (simp add: comprehensive_health_check_def fst_bind run_defs set_service_def)
    next
      case er
      with vd show ?thesis
        by (simp add: comprehensive_health_check_def fst_bind run_defs set_service_def)
    next
      case ed
      from vd(2) have hv: "healthy_entry (PDict dv) = vector_probe_succeeds w"
        by (simp add: healthy_entry_def)
      from ed(2) have he: "healthy_entry (PDict de) = embedding_probe_succeeds w"
        by (simp add: healthy_entry_def)
      show ?thesis
        using report_of_probes[OF vd(1) ed(1) vd(2) ed(2)] vd(1) ed(1) hv he
        by (simp add: service_entries_def)
    qed
  qed
qed

lemma settled_report:
  "every_call_settles w \<Longrightarrow> \<exists>r. fst (comprehensive_health_check w) = Returns r"
  using report_shape[of w] vector_probe_returns[of w] embedding_probe_returns[of w]
  by auto

lemma worlds_settle:
  "every_call_settles ready_env" "every_call_settles failing_env"
  "every_call_settles rejected_env"
  by (simp_all add: every_call_settles_def world_defs)

lemma worlds_succeed:
  "vector_probe_succeeds ready_env" "embedding_probe_succeeds ready_env"
  "\<not> vector_probe_succeeds failing_env" "\<not> embedding_probe_succeeds failing_env"
  "vector_probe_succeeds rejected_env" "\<not> embedding_probe_succeeds rejected_env"
  by (simp_all add: vector_probe_succeeds_def embedding_probe_succeeds_def world_defs)

text \<open>
  Claim C1.  Whenever every call settles, whatever the two probes find,
  \<open>comprehensive_health_check\<close> returns a report.  Every report it returns has the two entries
  \<^verbatim>\<open>vector_database\<close> and \<^verbatim>\<open>embedding_service\<close> in its \<^verbatim>\<open>services\<close> mapping, its \<^verbatim>\<open>overall_status\<close> is
  \<^verbatim>\<open>"healthy"\<close> if and only if every entry of \<^verbatim>\<open>services\<close> has status \<^verbatim>\<open>"healthy"\<close>, and its
  \<^verbatim>\<open>overall_status\<close> is \<^verbatim>\<open>"unhealthy"\<close> exactly when it is not the case that both probes
  succeeded.
\<close>

theorem overall_status_healthy_iff:
  "(every_call_settles w \<longrightarrow>
      (\<exists>r. fst (comprehensive_health_check w) = Returns r
         \<and> map fst (service_entries r) = [''vector_database'', ''embedding_service'']
         \<and> ((field r ''overall_status'' = Some (PStr ''healthy''))
              = list_all healthy_entry (map snd (service_entries r)))
         \<and> ((field r ''overall_status'' = Some (PStr ''unhealthy''))
              = (\<not> (vector_probe_succeeds w \<and> embedding_probe_succeeds w)))))
   \<and> (\<forall>r. fst (comprehensive_health_check w) = Returns r \<longrightarrow>
         map fst (service_entries r) = [''vector_database'', ''embedding_service'']
         \<and> ((field r ''overall_status'' = Some (PStr ''healthy''))
              = list_all healthy_entry (map snd (service_entries r)))
         \<and> ((field r ''overall_status'' = Some (PStr ''unhealthy''))
              = (\<not> (vector_probe_succeeds w \<and> embedding_probe_succeeds w))))"
proof -
  have returned: "map fst (service_entries r) = [''vector_database'', ''embedding_service'']
         \<and> ((field r ''overall_status'' = Some (PStr ''healthy''))
              = list_all healthy_entry (map snd (service_entries r)))
         \<and> ((field r ''overall_status'' = Some (PStr ''unhealthy''))
              = (\<not> (vector_probe_succeeds w \<and> embedding_probe_succeeds w)))"
    if "fst (comprehensive_health_check w) = Returns r" for r
    using that report_shape[of w] by auto
  show ?thesis
    using returned settled_report[of w] by blast
qed

theorem overall_status_healthy_iff_witness:
  "every_call_settles ready_env
   \<and> (\<exists>r. fst (comprehensive_health_check ready_env) = Returns r
        \<and> list_all healthy_entry (map snd (service_entries r))
        \<and> field r ''overall_status'' = Some (PStr ''healthy''))
   \<and> every_call_settles failing_env
   \<and> (\<exists>r. fst (comprehensive_health_check failing_env) = Returns r
        \<and> \<not> list_all healthy_entry (map snd (service_entries r))
        \<and> field r ''overall_status'' = Some (PStr ''unhealthy''))
   \<and> every_call_settles rejected_env
   \<and> (\<exists>r. fst (comprehensive_health_check rejected_env) = Returns r
        \<and> \<not> list_all healthy_entry (map snd (service_entries r))
        \<and> field r ''overall_status'' = Some (PStr ''unhealthy''))"
proof -
  have a: "\<exists>r. fst (comprehensive_health_check ready_env) = Returns r
        \<and> list_all healthy_entry (map snd (service_entries r))
        \<and> field r ''overall_status'' = Some (PStr ''healthy'')"
    using overall_status_healthy_iff[of ready_env] report_shape[of ready_env]
      worlds_settle(1) worlds_succeed(1,2)
    by auto
  have b: "\<exists>r. fst (comprehensive_health_check failing_env) = Returns r
        \<and> \<not> list_all healthy_entry (map snd (service_entries r))
        \<and> field r ''overall_status'' = Some (PStr ''unhealthy'')"
    using overall_status_healthy_iff[of failing_env] report_shape[of failing_env]
      worlds_settle(2) worlds_succeed(3,4)
    by auto
  have c: "\<exists>r. fst (comprehensive_health_check rejected_env) = Returns r
        \<and> \<not> list_all healthy_entry (map snd (service_entries r))
        \<and> field r ''overall_status'' = Some (PStr ''unhealthy'')"
    using overall_status_healthy_iff[of rejected_env] report_shape[of rejected_env]
      worlds_settle(3) worlds_succeed(5,6)
    by auto
  from a b c worlds_settle show ?thesis by (intro conjI)
qed

text \<open>
  Claim C4.  In every report \<open>comprehensive_health_check\<close> returns, the key
  \<^verbatim>\<open>unhealthy_services\<close> is present if and only if \<^verbatim>\<open>overall_status\<close> is \<^verbatim>\<open>"unhealthy"\<close>.  When
  present, it is the list of the names of the entries of \<^verbatim>\<open>services\<close> that are not healthy, in
  the order of \<^verbatim>\<open>services\<close>, which is \<^verbatim>\<open>vector_database\<close> then \<^verbatim>\<open>embedding_service\<close>.  When both
  probes succeed the key is absent.
\<close>

theorem unhealthy_services_key:
  assumes "fst (comprehensive_health_check w) = Returns r"
  shows "((field r ''unhealthy_services'' \<noteq> None)
          = (field r ''overall_status'' = Some (PStr ''unhealthy'')))
     \<and> map fst (service_entries r) = [''vector_database'', ''embedding_service'']
     \<and> field r ''unhealthy_services'' =
          (if list_all healthy_entry (map snd (service_entries r)) then None
           else Some (PList (map PStr
                  (map fst (filter (\<lambda>(name, h). \<not> healthy_entry h) (service_entries r))))))
     \<and> (vector_probe_succeeds w \<and> embedding_probe_succeeds w
          \<longrightarrow> field r ''unhealthy_services'' = None)"
  using assms report_shape[of w] by auto

theorem unhealthy_services_key_witness:
  "(\<exists>r. fst (comprehensive_health_check failing_env) = Returns r
        \<and> field r ''overall_status'' = Some (PStr ''unhealthy'')
        \<and> field r ''unhealthy_services''
            = Some (PList [PStr ''vector_database'', PStr ''embedding_service'']))
   \<and> (\<exists>r. fst (comprehensive_health_check rejected_env) = Returns r
        \<and> field r ''overall_status'' = Some (PStr ''unhealthy'')
        \<and> field r ''unhealthy_services'' = Some (PList [PStr ''embedding_service'']))
   \<and> vector_probe_succeeds ready_env \<and> embedding_probe_succeeds ready_env
   \<and> (\<exists>r. fst (comprehensive_health_check ready_env) = Returns r
        \<and> field r ''overall_status'' = Some (PStr ''healthy'')
        \<and> field r ''unhealthy_services'' = None)"
proof -
  obtain rf where rf: "fst (comprehensive_health_check failing_env) = Returns rf"
    using settled_report[OF worlds_settle(2)] by blast
  obtain rj where rj: "fst (comprehensive_health_check rejected_env) = Returns rj"
    using settled_report[OF worlds_settle(3)] by blast
  obtain rr where rr: "fst (comprehensive_health_check ready_env) = Returns rr"
    using settled_report[OF worlds_settle(1)] by blast
  have a: "field rf ''overall_status'' = Some (PStr ''unhealthy'')
        \<and> field rf ''unhealthy_services''
            = Some (PList [PStr ''vector_database'', PStr ''embedding_service''])"
    using unhealthy_services_key[OF rf] report_shape[of failing_env] rf worlds_succeed(3,4)
    by auto
  have b: "field rj ''overall_status'' = Some (PStr ''unhealthy'')
        \<and> field rj ''unhealthy_services'' = Some (PList [PStr ''embedding_service''])"
    using unhealthy_services_key[OF rj] report_shape[of rejected_env] rj worlds_succeed(5,6)
    by auto
  have c: "field rr ''overall_status'' = Some (PStr ''healthy'')
        \<and> field rr ''unhealthy_services'' = None"
    using unhealthy_services_key[OF rr] report_shape[of ready_env] rr worlds_succeed(1,2)
    by auto
  from rf a have a': "\<exists>r. fst (comprehensive_health_check failing_env) = Returns r
        \<and> field r ''overall_status'' = Some (PStr ''unhealthy'')
        \<and> field r ''unhealthy_services''
            = Some (PList [PStr ''vector_database'', PStr ''embedding_service''])"
    by (intro exI[of _ rf] conjI) simp_all
  from rj b have b': "\<exists>r. fst (comprehensive_health_check rejected_env) = Returns r
        \<and> field r ''overall_status'' = Some (PStr ''unhealthy'')
        \<and> field r ''unhealthy_services'' = Some (PList [PStr ''embedding_service''])"
    by (intro exI[of _ rj] conjI) simp_all
  from rr c have c': "\<exists>r. fst (comprehensive_health_check ready_env) = Returns r
        \<and> field r ''overall_status'' = Some (PStr ''healthy'')
        \<and> field r ''unhealthy_services'' = None"
    by (intro exI[of _ rr] conjI) simp_all
  from a' b' c' worlds_succeed(1,2) show ?thesis by (intro conjI)
qed

section \<open>The order of the probes\<close>

lemma vector_probe_events:
  "Enter ''check_embedding_service_health'' \<notin> set (snd (check_vector_database_health w))"
  unfolding check_vector_database_health_def
  by (cases "get_we0_index_settings w"; cases "init_app w"; cases "get_dimension w")
     (auto simp: run_simps attr_vector_cases split: option.splits)

lemma embedding_probe_entered:
  "Enter ''check_embedding_service_health'' \<in> set (snd (check_embedding_service_health w))"
  unfolding check_embedding_service_health_def
  by (simp add: run_simps)

lemma report_events:
  "snd (comprehensive_health_check w) =
     Enter ''comprehensive_health_check'' # snd (check_vector_database_health w)
       @ (case fst (check_vector_database_health w) of
            Returns vh \<Rightarrow> snd (check_embedding_service_health w)
          | Raises e \<Rightarrow> []
          | Hangs \<Rightarrow> [])"
  using vector_result[of w] embedding_result[of w]
  unfolding comprehensive_health_check_def
  by (auto simp: fst_bind snd_bind run_defs set_service_def)

lemma embedding_probe_entered_iff:
  "(Enter ''check_embedding_service_health'' \<in> set (snd (comprehensive_health_check w)))
     = (\<exists>vh. fst (check_vector_database_health w) = Returns vh)"
  using vector_probe_events[of w] embedding_probe_entered[of w]
  by (cases "fst (check_vector_database_health w)") (simp_all add: report_events)

text \<open>
  Claim C3, as the code has it.  The claim says that the two probes run concurrently and do
  not block each other.  The code awaits \<open>check_vector_database_health\<close> and only then calls
  \<open>check_embedding_service_health\<close>.  In the world \<open>stalled_env\<close>, where \<open>init_app\<close> never
  completes and the embedding service would answer at once, the embedding probe is never
  entered and the check hangs after the call of \<open>init_app\<close>.
\<close>

theorem stalled_vector_probe_blocks_embedding_probe:
  "fst (check_embedding_service_health stalled_env) = Returns (PDict
       [(''status'', PStr ''healthy''), (''dimension'', PInt 1536),
        (''provider'', PStr ''openai''), (''model'', PStr ''text-embedding-3-small'')])
   \<and> comprehensive_health_check stalled_env =
      (Hangs, [Enter ''comprehensive_health_check'', Enter ''check_vector_database_health'',
          Call ''get_we0_index_settings'', Call ''ExtManager.vector.init_app''])
   \<and> Enter ''check_embedding_service_health''
        \<notin> set (snd (comprehensive_health_check stalled_env))"
  by (simp add: health_defs prod_eq_iff run_simps world_defs)

text \<open>
  Claim C3, amended.  \<open>comprehensive_health_check\<close> runs the two probes one after the other:
  its events are those of the vector probe followed, once the vector probe has returned, by
  those of the embedding probe.  The embedding probe is entered if and only if the vector
  probe returns; a vector probe that hangs blocks it.  A report is returned only after both
  probes have returned.
\<close>

theorem probes_run_one_after_the_other:
  "snd (comprehensive_health_check w) =
     Enter ''comprehensive_health_check'' # snd (check_vector_database_health w)
       @ (case fst (check_vector_database_health w) of
            Returns vh \<Rightarrow> snd (check_embedding_service_health w)
          | Raises e \<Rightarrow> []
          | Hangs \<Rightarrow> [])
   \<and> Enter ''check_embedding_service_health'' \<notin> set (snd (check_vector_database_health w))
   \<and> ((Enter ''check_embedding_service_health'' \<in> set (snd (comprehensive_health_check w)))
        = (\<exists>vh. fst (check_vector_database_health w) = Returns vh))
   \<and> (fst (check_vector_database_health w) = Hangs
        \<longrightarrow> fst (comprehensive_health_check w) = Hangs
          \<and> Enter ''check_embedding_service_health''
               \<notin> set (snd (comprehensive_health_check w)))
   \<and> (\<forall>r. fst (comprehensive_health_check w) = Returns r
        \<longrightarrow> (\<exists>vh eh. fst (check_vector_database_health w) = Returns vh
              \<and> fst (check_embedding_service_health w) = Returns eh))"
  using report_shape[of w] vector_probe_events[of w] embedding_probe_entered_iff[of w]
    report_events[of w]
  by auto

theorem probes_run_one_after_the_other_witness:
  "(\<exists>vh. fst (check_vector_database_health failing_env) = Returns vh)
   \<and> Enter ''check_embedding_service_health''
        \<in> set (snd (comprehensive_health_check failing_env))
   \<and> fst (check_vector_database_health stalled_env) = Hangs
   \<and> fst (comprehensive_health_check stalled_env) = Hangs
   \<and> Enter ''check_embedding_service_health''
        \<notin> set (snd (comprehensive_health_check stalled_env))
   \<and> (\<exists>r vh eh. fst (comprehensive_health_check failing_env) = Returns r
        \<and> fst (check_vector_database_health failing_env) = Returns vh
        \<and> fst (check_embedding_service_health failing_env) = Returns eh)"
proof -
  have f: "\<exists>vh. fst (check_vector_database_health failing_env) = Returns vh"
    by (simp add: health_defs run_simps world_defs)
  have s: "fst (check_vector_database_health stalled_env) = Hangs"
    by (simp add: health_defs run_simps world_defs)
  obtain r where r: "fst (comprehensive_health_check failing_env) = Returns r"
    using settled_report[OF worlds_settle(2)] by blast
  have a: "Enter ''check_embedding_service_health''
        \<in> set (snd (comprehensive_health_check failing_env))"
    using probes_run_one_after_the_other[of failing_env] f by blast
  have b: "fst (comprehensive_health_check stalled_env) = Hangs
     \<and> Enter ''check_embedding_service_health''
        \<notin> set (snd (comprehensive_health_check stalled_env))"
    using probes_run_one_after_the_other[of stalled_env] s by blast
  have c: "\<exists>vh eh. fst (check_vector_database_health failing_env) = Returns vh
        \<and> fst (check_embedding_service_health failing_env) = Returns eh"
    using probes_run_one_after_the_other[of failing_env] r by blast
  from r c have c': "\<exists>r vh eh. fst (comprehensive_health_check failing_env) = Returns r
        \<and> fst (check_vector_database_health failing_env) = Returns vh
        \<and> fst (check_embedding_service_health failing_env) = Returns eh"
    by blast
  from f a s b c' show ?thesis by (intro conjI) simp_all
qed

section \<open>Exceptions inside the probes\<close>

text \<open>
  Claim C2, as the code has it.  The claim says that the check never raises and that any
  exception raised inside a probe becomes an unhealthy entry without aborting the other
  probe.  The handlers of the probes catch \<^verbatim>\<open>Exception\<close> only.  In the world \<open>cancelled_env\<close>,
  where the task is cancelled while the vector probe awaits \<open>init_app\<close>, the
  \<^verbatim>\<open>CancelledError\<close> leaves the probe and the check, and the embedding probe is never entered.
\<close>

theorem cancelled_vector_probe_aborts_the_check:
  "comprehensive_health_check cancelled_env =
      (Raises cancelled,
       [Enter ''comprehensive_health_check'', Enter ''check_vector_database_health'',
        Call ''get_we0_index_settings'', Call ''ExtManager.vector.init_app''])
   \<and> Enter ''check_embedding_service_health''
        \<notin> set (snd (comprehensive_health_check cancelled_env))"
  by (simp add: health_defs prod_eq_iff run_simps world_defs)

text \<open>
  Claim C2, amended.  \<open>comprehensive_health_check\<close> and the two probes never raise an
  instance of \<^verbatim>\<open>Exception\<close>, and when every call settles the check returns a report, also
  when both probes fail.  An instance \<open>e\<close> of \<^verbatim>\<open>Exception\<close> raised by a call inside a probe is
  caught in that probe and becomes the record \<^verbatim>\<open>{"status": "unhealthy", "error": str(e)}\<close>, as
  does the \<^verbatim>\<open>AttributeError\<close> of the vector probe on settings that are \<^verbatim>\<open>None\<close>; after such
  a failure of the vector probe the embedding probe is still entered.  The returned report
  carries the record of each probe under its name.  What a call inside a probe raises that
  is not an instance of \<^verbatim>\<open>Exception\<close> leaves the probe and the check; when that happens in the
  vector probe, the embedding probe is not entered.
\<close>

theorem probes_catch_every_Exception:
  "(\<forall>m. fst (comprehensive_health_check w) \<noteq> Raises (Exception m))
   \<and> (\<forall>m. fst (check_vector_database_health w) \<noteq> Raises (Exception m))
   \<and> (\<forall>m. fst (check_embedding_service_health w) \<noteq> Raises (Exception m))
   \<and> (every_call_settles w \<longrightarrow> (\<exists>r. fst (comprehensive_health_check w) = Returns r))
   \<and> (raised_in_vector_probe w e \<and> is_Exception e
        \<longrightarrow> fst (check_vector_database_health w) = Returns (unhealthy_record e)
          \<and> Enter ''check_embedding_service_health''
               \<in> set (snd (comprehensive_health_check w)))
   \<and> (raised_in_embedding_probe w e \<and> is_Exception e
        \<longrightarrow> fst (check_embedding_service_health w) = Returns (unhealthy_record e))
   \<and> (get_we0_index_settings w = Returns None \<and> init_app w = Returns ()
          \<and> get_dimension w = Returns d
        \<longrightarrow> fst (check_vector_database_health w)
              = Returns (unhealthy_record (no_attribute ''NoneType'' ''vector'')))
   \<and> (\<forall>r. fst (comprehensive_health_check w) = Returns r \<longrightarrow>
         (\<exists>vh eh. fst (check_vector_database_health w) = Returns vh
            \<and> fst (check_embedding_service_health w) = Returns eh
            \<and> service_entries r = [(''vector_database'', vh), (''embedding_service'', eh)]))
   \<and> (raised_in_vector_probe w e \<and> \<not> is_Exception e
        \<longrightarrow> fst (check_vector_database_health w) = Raises e
          \<and> fst (comprehensive_health_check w) = Raises e
          \<and> Enter ''check_embedding_service_health''
               \<notin> set (snd (comprehensive_health_check w)))
   \<and> (raised_in_embedding_probe w e \<and> \<not> is_Exception e
        \<longrightarrow> fst (check_embedding_service_health w) = Raises e
          \<and> (\<forall>vh. fst (check_vector_database_health w) = Returns vh
                \<longrightarrow> fst (comprehensive_health_check w) = Raises e))"
proof (intro conjI)
  show "\<forall>m. fst (comprehensive_health_check w) \<noteq> Raises (Exception m)"
    using report_shape[of w] by auto
  show "\<forall>m. fst (check_vector_database_health w) \<noteq> Raises (Exception m)"
    using vector_result[of w] by auto
  show "\<forall>m. fst (check_embedding_service_health w) \<noteq> Raises (Exception m)"
    using embedding_result[of w] by auto
  show "every_call_settles w \<longrightarrow> (\<exists>r. fst (comprehensive_health_check w) = Returns r)"
    by (simp add: settled_report)
  show "raised_in_vector_probe w e \<and> is_Exception e
        \<longrightarrow> fst (check_vector_database_health w) = Returns (unhealthy_record e)
          \<and> Enter ''check_embedding_service_health''
               \<in> set (snd (comprehensive_health_check w))"
    using raised_in_vector_probe_result[of w e]
    by (auto simp: embedding_probe_entered_iff)
  show "raised_in_embedding_probe w e \<and> is_Exception e
        \<longrightarrow> fst (check_embedding_service_health w) = Returns (unhealthy_record e)"
    using raised_in_embedding_probe_result[of w e] by auto
  show "get_we0_index_settings w = Returns None \<and> init_app w = Returns ()
          \<and> get_dimension w = Returns d
        \<longrightarrow> fst (check_vector_database_health w)
              = Returns (unhealthy_record (no_attribute ''NoneType'' ''vector''))"
    by (simp add: vector_catches)
  show "\<forall>r. fst (comprehensive_health_check w) = Returns r \<longrightarrow>
         (\<exists>vh eh. fst (check_vector_database_health w) = Returns vh
            \<and> fst (check_embedding_service_health w) = Returns eh
            \<and> service_entries r = [(''vector_database'', vh), (''embedding_service'', eh)])"
    using report_shape[of w] by auto
  show "raised_in_vector_probe w e \<and> \<not> is_Exception e
        \<longrightarrow> fst (check_vector_database_health w) = Raises e
          \<and> fst (comprehensive_health_check w) = Raises e
          \<and> Enter ''check_embedding_service_health''
               \<notin> set (snd (comprehensive_health_check w))"
    using report_shape[of w] raised_in_vector_probe_result[of w e]
    by (auto simp: embedding_probe_entered_iff)
  show "raised_in_embedding_probe w e \<and> \<not> is_Exception e
        \<longrightarrow> fst (check_embedding_service_health w) = Raises e
          \<and> (\<forall>vh. fst (check_vector_database_health w) = Returns vh
                \<longrightarrow> fst (comprehensive_health_check w) = Raises e)"
    using report_shape[of w] raised_in_embedding_probe_result[of w e]
    by auto
qed

theorem probes_catch_every_Exception_witness:
  "every_call_settles failing_env
   \<and> (\<exists>r. fst (comprehensive_health_check failing_env) = Returns r
        \<and> service_entries r =
            [(''vector_database'', unhealthy_record refused),
             (''embedding_service'', unhealthy_record unauthorized)])
   \<and> is_Exception refused \<and> is_Exception unauthorized \<and> \<not> is_Exception cancelled
   \<and> raised_in_vector_probe (ready_env\<lparr>get_we0_index_settings := Raises refused\<rparr>) refused
   \<and> fst (check_vector_database_health (ready_env\<lparr>get_we0_index_settings := Raises refused\<rparr>))
        = Returns (unhealthy_record refused)
   \<and> raised_in_vector_probe failing_env refused
   \<and> fst (check_vector_database_health failing_env) = Returns (unhealthy_record refused)
   \<and> Enter ''check_embedding_service_health''
        \<in> set (snd (comprehensive_health_check failing_env))
   \<and> raised_in_vector_probe (ready_env\<lparr>get_dimension := Raises refused\<rparr>) refused
   \<and> fst (check_vector_database_health (ready_env\<lparr>get_dimension := Raises refused\<rparr>))
        = Returns (unhealthy_record refused)
   \<and> raised_in_embedding_probe failing_env unauthorized
   \<and> fst (check_embedding_service_health failing_env) = Returns (unhealthy_record unauthorized)
   \<and> raised_in_embedding_probe rejected_env unauthorized
   \<and> fst (check_embedding_service_health rejected_env) = Returns (unhealthy_record unauthorized)
   \<and> get_we0_index_settings (ready_env\<lparr>get_we0_index_settings := Returns None\<rparr>) = Returns None
   \<and> fst (check_vector_database_health (ready_env\<lparr>get_we0_index_settings := Returns None\<rparr>))
        = Returns (unhealthy_record (no_attribute ''NoneType'' ''vector''))
   \<and> raised_in_vector_probe cancelled_env cancelled
   \<and> fst (comprehensive_health_check cancelled_env) = Raises cancelled
   \<and> Enter ''check_embedding_service_health''
        \<notin> set (snd (comprehensive_health_check cancelled_env))
   \<and> raised_in_embedding_probe (ready_env\<lparr>get_embedding_model := Raises cancelled\<rparr>) cancelled
   \<and> fst (comprehensive_health_check (ready_env\<lparr>get_embedding_model := Raises cancelled\<rparr>))
        = Raises cancelled"
proof -
  have kinds: "is_Exception refused" "is_Exception unauthorized" "\<not> is_Exception cancelled"
    by (simp_all add: world_defs)
  have rv: "raised_in_vector_probe (ready_env\<lparr>get_we0_index_settings := Raises refused\<rparr>) refused"
    "raised_in_vector_probe failing_env refused"
    "raised_in_vector_probe (ready_env\<lparr>get_dimension := Raises refused\<rparr>) refused"
    "raised_in_vector_probe cancelled_env cancelled"
    by (simp_all add: raised_in_vector_probe_def failing_env_def cancelled_env_def ready_env_def)
  have re: "raised_in_embedding_probe failing_env unauthorized"
    "raised_in_embedding_probe rejected_env unauthorized"
    "raised_in_embedding_probe (ready_env\<lparr>get_embedding_model := Raises cancelled\<rparr>) cancelled"
    by (simp_all add: raised_in_embedding_probe_def failing_env_def rejected_env_def
          ready_env_def ready_client_def)
  have none: "get_we0_index_settings (ready_env\<lparr>get_we0_index_settings := Returns None\<rparr>)
       = Returns None"
    "init_app (ready_env\<lparr>get_we0_index_settings := Returns None\<rparr>) = Returns ()"
    "get_dimension (ready_env\<lparr>get_we0_index_settings := Returns None\<rparr>) = Returns (PInt 1536)"
    by (simp_all add: ready_env_def)
  note at_failing = probes_catch_every_Exception
    [where w = failing_env and e = refused and d = "PInt 1536"]
  note at_failing' = probes_catch_every_Exception
    [where w = failing_env and e = unauthorized and d = "PInt 1536"]
  have v: "fst (check_vector_database_health failing_env) = Returns (unhealthy_record refused)"
    "Enter ''check_embedding_service_health''
        \<in> set (snd (comprehensive_health_check failing_env))"
    using at_failing rv(2) kinds(1) by simp_all
  have e: "fst (check_embedding_service_health failing_env)
             = Returns (unhealthy_record unauthorized)"
    using at_failing' re(1) kinds(2) by simp
  have r: "\<exists>r. fst (comprehensive_health_check failing_env) = Returns r
        \<and> service_entries r =
            [(''vector_database'', unhealthy_record refused),
             (''embedding_service'', unhealthy_record unauthorized)]"
  proof -
    from at_failing worlds_settle(2)
    obtain r where r: "fst (comprehensive_health_check failing_env) = Returns r"
      by blast
    from at_failing
    have "\<forall>r. fst (comprehensive_health_check failing_env) = Returns r \<longrightarrow>
         (\<exists>vh eh. fst (check_vector_database_health failing_env) = Returns vh
            \<and> fst (check_embedding_service_health failing_env) = Returns eh
            \<and> service_entries r = [(''vector_database'', vh), (''embedding_service'', eh)])"
      by (elim conjE)
    with r v(1) e have "service_entries r =
            [(''vector_database'', unhealthy_record refused),
             (''embedding_service'', unhealthy_record unauthorized)]"
      by auto
    with r show ?thesis by (intro exI conjI)
  qed
  have s: "fst (check_vector_database_health
        (ready_env\<lparr>get_we0_index_settings := Raises refused\<rparr>))
        = Returns (unhealthy_record refused)"
    using probes_catch_every_Exception
      [where w = "ready_env\<lparr>get_we0_index_settings := Raises refused\<rparr>" and e = refused
         and d = "PInt 1536"]
      rv(1) kinds(1)
    by simp
  have d: "fst (check_vector_database_health (ready_env\<lparr>get_dimension := Raises refused\<rparr>))
        = Returns (unhealthy_record refused)"
    using probes_catch_every_Exception
      [where w = "ready_env\<lparr>get_dimension := Raises refused\<rparr>" and e = refused
         and d = "PInt 1536"]
      rv(3) kinds(1)
    by simp
  have j: "fst (check_embedding_service_health rejected_env)
        = Returns (unhealthy_record unauthorized)"
    using probes_catch_every_Exception
      [where w = rejected_env and e = unauthorized and d = "PInt 1536"]
      re(2) kinds(2)
    by simp
  have n: "fst (check_vector_database_health (ready_env\<lparr>get_we0_index_settings := Returns None\<rparr>))
        = Returns (unhealthy_record (no_attribute ''NoneType'' ''vector''))"
    using probes_catch_every_Exception
      [where w = "ready_env\<lparr>get_we0_index_settings := Returns None\<rparr>" and e = refused
         and d = "PInt 1536"]
      none
    by simp
  have c: "fst (comprehensive_health_check cancelled_env) = Raises cancelled"
    "Enter ''check_embedding_service_health''
        \<notin> set (snd (comprehensive_health_check cancelled_env))"
    using probes_catch_every_Exception
      [where w = cancelled_env and e = cancelled and d = "PInt 1536"]
      rv(4) kinds(3)
    by simp_all
  have vc: "\<exists>vh. fst (check_vector_database_health
        (ready_env\<lparr>get_embedding_model := Raises cancelled\<rparr>)) = Returns vh"
    by (simp add: check_vector_database_health_def run_simps ready_env_def)
  have c': "fst (comprehensive_health_check (ready_env\<lparr>get_embedding_model := Raises cancelled\<rparr>))
        = Raises cancelled"
    using probes_catch_every_Exception
      [where w = "ready_env\<lparr>get_embedding_model := Raises cancelled\<rparr>" and e = cancelled
         and d = "PInt 1536"]
      re(3) kinds(3) vc
    by auto
  from worlds_settle(2) r kinds rv(1) s rv(2) v rv(3) d re(1) e re(2) j none(1) n rv(4) c re(3) c'
  show ?thesis by (intro conjI)
qed

section \<open>The embedding probe on an empty result\<close>

text \<open>
  Claim C5.  If \<open>create_embedding\<close> returns an empty list, \<open>check_embedding_service_health\<close>
  does not index it: it returns the healthy record with dimension 0, raises nothing and logs
  no error.
\<close>

theorem empty_embedding_result_is_dimension_zero:
  assumes "get_embedding_model w = Returns m"
    and "create_embedding m [''health check test''] = Returns []"
  shows "check_embedding_service_health w =
     (Returns (PDict
        [(''status'', PStr ''healthy''), (''dimension'', PInt 0),
         (''provider'', model_type m), (''model'', model_name m)]),
      [Enter ''check_embedding_service_health'',
       Call ''ExtManager.vector.get_embedding_model'',
       Call ''embedding_model.create_embedding''])"
  using assms by (simp add: check_embedding_service_health_def prod_eq_iff run_simps)

theorem empty_embedding_result_is_dimension_zero_witness:
  "check_embedding_service_health empty_result_env =
     (Returns (PDict
        [(''status'', PStr ''healthy''), (''dimension'', PInt 0),
         (''provider'', PStr ''openai''), (''model'', PStr ''text-embedding-3-small'')]),
      [Enter ''check_embedding_service_health'',
       Call ''ExtManager.vector.get_embedding_model'',
       Call ''embedding_model.create_embedding''])"
  using empty_embedding_result_is_dimension_zero
    [of empty_result_env "ready_client\<lparr>create_embedding := (\<lambda>texts. Returns [])\<rparr>"]
  by (simp add: world_defs)

section \<open>The validation of the environment\<close>

lemma check_api_keys_returns: "fst (check_api_keys w v) = Returns True"
  by (simp add: check_api_keys_def run_simps)

lemma check_api_keys_events:
  "filter (\<lambda>ev. \<not> is_warning ev) (snd (check_api_keys w v))
     = [Log ''info'' ''Environment validation completed'']"
  by (simp add: check_api_keys_def run_simps)

text \<open>What \<open>validate_environment\<close> returns, by the outcome of loading the settings.\<close>

lemma validate_environment_outcome:
  "fst (validate_environment w) =
     (case get_we0_index_settings w of
        Hangs \<Rightarrow> Hangs
      | Raises e \<Rightarrow> (if is_Exception e then Returns False else Raises e)
      | Returns None \<Rightarrow> Returns False
      | Returns (Some s) \<Rightarrow>
          Returns (if platform (vector s) = PStr ''pgvector'' then truthy (pgvector (vector s))
                   else if platform (vector s) = PStr ''qdrant'' then truthy (qdrant (vector s))
                   else if platform (vector s) = PStr ''chroma'' then truthy (chroma (vector s))
                   else True))"
proof (cases "get_we0_index_settings w")
  case (Returns x)
  then show ?thesis
    by (cases x)
       (simp_all add: validate_environment_def check_api_keys_returns fst_bind fst_try_except
          run_defs)
next
  case (Raises e)
  then show ?thesis
    by (simp add: validate_environment_def fst_bind fst_try_except run_defs)
next
  case Hangs
  then show ?thesis
    by (simp add: validate_environment_def fst_bind fst_try_except run_defs)
qed

lemma validate_environment_events:
  "filter (\<lambda>ev. \<not> is_warning ev) (snd (validate_environment (w\<lparr>environ := e1\<rparr>)))
     = filter (\<lambda>ev. \<not> is_warning ev) (snd (validate_environment (w\<lparr>environ := e2\<rparr>)))"
proof (cases "get_we0_index_settings w")
  case (Returns x)
  then show ?thesis
    by (cases x)
       (simp_all add: validate_environment_def check_api_keys_returns check_api_keys_events
          run_simps)
next
  case (Raises e)
  then show ?thesis
    by (simp add: validate_environment_def run_simps)
next
  case Hangs
  then show ?thesis
    by (simp add: validate_environment_def run_simps)
qed

text \<open>
  Claim C6.  For settings that load as an object and select \<^verbatim>\<open>pgvector\<close>, \<^verbatim>\<open>qdrant\<close> or \<^verbatim>\<open>chroma\<close>,
  \<open>validate_environment\<close> returns \<open>True\<close> if and only if the configuration attribute of that
  platform is non-empty, and \<open>False\<close> otherwise.  Non-empty is what the code tests with
  \<^verbatim>\<open>not\<close>: the attribute is none of \<^verbatim>\<open>None\<close>, an empty mapping, sequence or string, zero and
  \<^verbatim>\<open>False\<close>.
\<close>

theorem validation_succeeds_iff_platform_configured:
  assumes "get_we0_index_settings w = Returns (Some s)"
  shows "(platform (vector s) = PStr ''pgvector''
           \<longrightarrow> fst (validate_environment w) = Returns (truthy (pgvector (vector s))))
       \<and> (platform (vector s) = PStr ''qdrant''
           \<longrightarrow> fst (validate_environment w) = Returns (truthy (qdrant (vector s))))
       \<and> (platform (vector s) = PStr ''chroma''
           \<longrightarrow> fst (validate_environment w) = Returns (truthy (chroma (vector s))))"
  using assms by (simp add: validate_environment_outcome)

theorem validation_succeeds_iff_platform_configured_witness:
  "fst (validate_environment ready_env) = Returns True
   \<and> fst (validate_environment unconfigured_env) = Returns False
   \<and> fst (validate_environment (ready_env\<lparr>get_we0_index_settings := Returns (Some
        \<lparr>vector = \<lparr>platform = PStr ''qdrant'', pgvector = PNone,
           qdrant = PDict [(''path'', PStr ''/data/qdrant'')], chroma = PNone,
           embedding_provider = PStr ''jina'', embedding_model = PStr ''jina-v3''\<rparr>\<rparr>)\<rparr>))
       = Returns True
   \<and> fst (validate_environment (ready_env\<lparr>get_we0_index_settings := Returns (Some
        \<lparr>vector = \<lparr>platform = PStr ''chroma'', pgvector = PNone,
           qdrant = PNone, chroma = PDict [],
           embedding_provider = PStr ''jina'', embedding_model = PStr ''jina-v3''\<rparr>\<rparr>)\<rparr>))
       = Returns False"
  using validation_succeeds_iff_platform_configured [of ready_env ready_settings]
    validation_succeeds_iff_platform_configured [of unconfigured_env
      "ready_settings\<lparr>vector := (vector ready_settings)\<lparr>pgvector := PNone\<rparr>\<rparr>"]
    validation_succeeds_iff_platform_configured
      [of "ready_env\<lparr>get_we0_index_settings := Returns (Some
        \<lparr>vector = \<lparr>platform = PStr ''qdrant'', pgvector = PNone,
           qdrant = PDict [(''path'', PStr ''/data/qdrant'')], chroma = PNone,
           embedding_provider = PStr ''jina'', embedding_model = PStr ''jina-v3''\<rparr>\<rparr>)\<rparr>"
        "\<lparr>vector = \<lparr>platform = PStr ''qdrant'', pgvector = PNone,
           qdrant = PDict [(''path'', PStr ''/data/qdrant'')], chroma = PNone,
           embedding_provider = PStr ''jina'', embedding_model = PStr ''jina-v3''\<rparr>\<rparr>"]
    validation_succeeds_iff_platform_configured
      [of "ready_env\<lparr>get_we0_index_settings := Returns (Some
        \<lparr>vector = \<lparr>platform = PStr ''chroma'', pgvector = PNone,
           qdrant = PNone, chroma = PDict [],
           embedding_provider = PStr ''jina'', embedding_model = PStr ''jina-v3''\<rparr>\<rparr>)\<rparr>"
        "\<lparr>vector = \<lparr>platform = PStr ''chroma'', pgvector = PNone,
           qdrant = PNone, chroma = PDict [],
           embedding_provider = PStr ''jina'', embedding_model = PStr ''jina-v3''\<rparr>\<rparr>"]
  by (simp add: world_defs)

text \<open>
  Claim C9.  The value \<open>validate_environment\<close> returns does not depend on the process
  environment: for the same settings and any two environments (in particular one with and one
  without \<^verbatim>\<open>OPENAI_API_KEY\<close> or \<^verbatim>\<open>JINA_API_KEY\<close>) it returns the same value, and the two runs
  differ at most in their \<^verbatim>\<open>warning\<close> log lines.
\<close>

theorem validate_environment_ignores_api_keys:
  "fst (validate_environment (w\<lparr>environ := e1\<rparr>))
     = fst (validate_environment (w\<lparr>environ := e2\<rparr>))
   \<and> filter (\<lambda>ev. \<not> is_warning ev) (snd (validate_environment (w\<lparr>environ := e1\<rparr>)))
     = filter (\<lambda>ev. \<not> is_warning ev) (snd (validate_environment (w\<lparr>environ := e2\<rparr>)))"
  using validate_environment_events
  by (simp add: validate_environment_outcome)

theorem validate_environment_ignores_api_keys_witness:
  "fst (validate_environment (ready_env\<lparr>environ := Map.empty\<rparr>)) = Returns True
   \<and> fst (validate_environment
        (ready_env\<lparr>environ := [''OPENAI_API_KEY'' \<mapsto> ''sk-test'']\<rparr>)) = Returns True
   \<and> snd (validate_environment (ready_env\<lparr>environ := Map.empty\<rparr>)) =
       [Enter ''validate_environment'', Call ''get_we0_index_settings'',
        Log ''warning'' ''OPENAI_API_KEY not set'',
        Log ''info'' ''Environment validation completed'']
   \<and> snd (validate_environment
        (ready_env\<lparr>environ := [''OPENAI_API_KEY'' \<mapsto> ''sk-test'']\<rparr>)) =
       [Enter ''validate_environment'', Call ''get_we0_index_settings'',
        Log ''info'' ''Environment validation completed'']"
  using validate_environment_ignores_api_keys
    [where w = ready_env and ?e1.0 = Map.empty
       and ?e2.0 = "[''OPENAI_API_KEY'' \<mapsto> ''sk-test'']"]
  by (simp add: validate_environment_def check_api_keys_def environ_lacks_def run_simps
      world_defs)

text \<open>
  Claim C10.  For settings that load as an object and whose platform is none of \<^verbatim>\<open>pgvector\<close>,
  \<^verbatim>\<open>qdrant\<close> and \<^verbatim>\<open>chroma\<close>, \<open>validate_environment\<close> checks no platform configuration: it goes
  straight from loading the settings to the API-key check and returns \<open>True\<close>.
\<close>

theorem unknown_platform_passes_validation:
  assumes "get_we0_index_settings w = Returns (Some s)"
    and "platform (vector s) \<noteq> PStr ''pgvector''"
    and "platform (vector s) \<noteq> PStr ''qdrant''"
    and "platform (vector s) \<noteq> PStr ''chroma''"
  shows "fst (validate_environment w) = Returns True
    \<and> snd (validate_environment w) =
        Enter ''validate_environment'' # Call ''get_we0_index_settings''
          # snd (check_api_keys w (vector s))"
  using assms
  by (simp add: validate_environment_def check_api_keys_returns run_simps)

theorem unknown_platform_passes_validation_witness:
  "get_we0_index_settings unknown_platform_env =
     Returns (Some (ready_settings\<lparr>vector :=
       (vector ready_settings)\<lparr>platform := PStr ''milvus'', pgvector := PNone\<rparr>\<rparr>))
   \<and> fst (validate_environment unknown_platform_env) = Returns True
   \<and> snd (validate_environment unknown_platform_env) =
       [Enter ''validate_environment'', Call ''get_we0_index_settings'',
        Log ''warning'' ''OPENAI_API_KEY not set'',
        Log ''info'' ''Environment validation completed'']"
  using unknown_platform_passes_validation [of unknown_platform_env
      "ready_settings\<lparr>vector :=
         (vector ready_settings)\<lparr>platform := PStr ''milvus'', pgvector := PNone\<rparr>\<rparr>"]
  by (simp add: check_api_keys_def environ_lacks_def run_simps world_defs)

section \<open>The health endpoint\<close>

lemma health_check_with_raises_no_Exception:
  "fst (health_check_with awaited) \<noteq> Raises (Exception m)"
proof (cases "fst awaited")
  case (Returns a)
  with getitem_outcome[of a "''overall_status''"] show ?thesis
    by (auto simp: health_check_with_def run_simps)
next
  case (Raises x)
  then show ?thesis
    by (cases x) (simp_all add: health_check_with_def run_simps)
next
  case Hangs
  then show ?thesis
    by (simp add: health_check_with_def run_simps)
qed

text \<open>
  Claim C7, as the code has it.  The claim says that the handler returns the unhealthy body
  with status 503 whenever the check raises, instead of propagating.  The handler catches
  \<^verbatim>\<open>Exception\<close> only.  In the world \<open>cancelled_env\<close>, where the task is cancelled while the check
  awaits \<open>init_app\<close>, the check raises \<^verbatim>\<open>CancelledError\<close> and so does the handler: there is no
  response.
\<close>

theorem health_endpoint_propagates_cancellation:
  "fst (comprehensive_health_check cancelled_env) = Raises cancelled
   \<and> health_check cancelled_env =
      (Raises cancelled,
       [Enter ''health_check'', Enter ''comprehensive_health_check'',
        Enter ''check_vector_database_health'', Call ''get_we0_index_settings'',
        Call ''ExtManager.vector.init_app''])"
  by (simp add: health_check_def health_check_with_def health_defs prod_eq_iff run_simps
      world_defs)

text \<open>
  Claim C7, amended.  The handler returns the report with status 200 when the report's
  \<^verbatim>\<open>overall_status\<close> is \<^verbatim>\<open>"healthy"\<close> and with status 503 when it is anything else.  If the awaited
  check raises an instance \<open>e\<close> of \<^verbatim>\<open>Exception\<close>, the handler returns the body
  \<^verbatim>\<open>{"status": "unhealthy", "error": str(e)}\<close> with status 503, and the handler never raises an
  instance of \<^verbatim>\<open>Exception\<close>.  Anything else the check raises leaves the handler as it is.  With
  the check of this repository: a check that returns a report gives that report under the
  status code of its \<^verbatim>\<open>overall_status\<close>, and a check that raises makes the handler raise the
  same.
\<close>

theorem health_endpoint_status_codes:
  "(fst awaited = Returns r \<and> field r ''overall_status'' = Some (PStr ''healthy'')
      \<longrightarrow> fst (health_check_with awaited) = Returns (JSONResponse r 200))
   \<and> (fst awaited = Returns r \<and> field r ''overall_status'' = Some v \<and> v \<noteq> PStr ''healthy''
      \<longrightarrow> fst (health_check_with awaited) = Returns (JSONResponse r 503))
   \<and> (fst awaited = Raises e \<and> is_Exception e
      \<longrightarrow> fst (health_check_with awaited) = Returns (JSONResponse (unhealthy_record e) 503))
   \<and> (fst awaited = Raises e \<and> \<not> is_Exception e
      \<longrightarrow> fst (health_check_with awaited) = Raises e)
   \<and> (\<forall>m. fst (health_check_with awaited) \<noteq> Raises (Exception m))
   \<and> (\<forall>r. fst (comprehensive_health_check w) = Returns r
      \<longrightarrow> fst (health_check w) = Returns (JSONResponse r
             (if field r ''overall_status'' = Some (PStr ''healthy'') then 200 else 503)))
   \<and> (\<forall>x. fst (comprehensive_health_check w) = Raises x
      \<longrightarrow> fst (health_check w) = Raises x)"
proof (intro conjI)
  show "\<forall>r. fst (comprehensive_health_check w) = Returns r
      \<longrightarrow> fst (health_check w) = Returns (JSONResponse r
             (if field r ''overall_status'' = Some (PStr ''healthy'') then 200 else 503))"
    using report_shape[of w]
    by (auto simp: health_check_def health_check_with_def field_getitem run_simps)
  show "\<forall>x. fst (comprehensive_health_check w) = Raises x
      \<longrightarrow> fst (health_check w) = Raises x"
    using report_shape[of w]
    by (auto simp: health_check_def health_check_with_def run_simps)
  show "\<forall>m. fst (health_check_with awaited) \<noteq> Raises (Exception m)"
    by (simp add: health_check_with_raises_no_Exception)
qed (auto simp: health_check_with_def field_getitem run_simps unhealthy_record_def)

theorem health_endpoint_status_codes_witness:
  "fst (health_check_with (return (PDict [(''overall_status'', PStr ''healthy'')])))
     = Returns (JSONResponse (PDict [(''overall_status'', PStr ''healthy'')]) 200)
   \<and> fst (health_check_with (return (PDict [(''overall_status'', PStr ''unhealthy'')])))
     = Returns (JSONResponse (PDict [(''overall_status'', PStr ''unhealthy'')]) 503)
   \<and> is_Exception refused
   \<and> fst (health_check_with (raise refused))
     = Returns (JSONResponse (unhealthy_record refused) 503)
   \<and> \<not> is_Exception cancelled
   \<and> fst (health_check_with (raise cancelled)) = Raises cancelled
   \<and> (\<exists>r. fst (comprehensive_health_check failing_env) = Returns r
        \<and> fst (health_check failing_env) = Returns (JSONResponse r 503))
   \<and> (\<exists>r. fst (comprehensive_health_check ready_env) = Returns r
        \<and> fst (health_check ready_env) = Returns (JSONResponse r 200))
   \<and> fst (comprehensive_health_check cancelled_env) = Raises cancelled
   \<and> fst (health_check cancelled_env) = Raises cancelled"
proof -
  have kinds: "is_Exception refused" "\<not> is_Exception cancelled"
    by (simp_all add: world_defs)
  have a: "fst (health_check_with (return (PDict [(''overall_status'', PStr ''healthy'')])))
     = Returns (JSONResponse (PDict [(''overall_status'', PStr ''healthy'')]) 200)"
    using health_endpoint_status_codes
      [where awaited = "return (PDict [(''overall_status'', PStr ''healthy'')])"
         and r = "PDict [(''overall_status'', PStr ''healthy'')]"]
    by (simp add: return_def)
  have b: "fst (health_check_with (return (PDict [(''overall_status'', PStr ''unhealthy'')])))
     = Returns (JSONResponse (PDict [(''overall_status'', PStr ''unhealthy'')]) 503)"
    using health_endpoint_status_codes
      [where awaited = "return (PDict [(''overall_status'', PStr ''unhealthy'')])"
         and r = "PDict [(''overall_status'', PStr ''unhealthy'')]" and v = "PStr ''unhealthy''"]
    by (simp add: return_def)
  have c: "fst (health_check_with (raise refused))
     = Returns (JSONResponse (unhealthy_record refused) 503)"
    using health_endpoint_status_codes [where awaited = "raise refused" and e = refused] kinds
    by (simp add: raise_def)
  have d: "fst (health_check_with (raise cancelled)) = Raises cancelled"
    using health_endpoint_status_codes [where awaited = "raise cancelled" and e = cancelled]
      kinds
    by (simp add: raise_def)
  obtain rf where rf: "fst (comprehensive_health_check failing_env) = Returns rf"
    using settled_report[OF worlds_settle(2)] by blast
  have sf: "field rf ''overall_status'' = Some (PStr ''unhealthy'')"
    using report_shape[of failing_env] rf worlds_succeed(3,4) by auto
  have f: "fst (health_check failing_env) = Returns (JSONResponse rf 503)"
    using health_endpoint_status_codes [where w = failing_env] rf sf by simp
  obtain rr where rr: "fst (comprehensive_health_check ready_env) = Returns rr"
    using settled_report[OF worlds_settle(1)] by blast
  have sr: "field rr ''overall_status'' = Some (PStr ''healthy'')"
    using report_shape[of ready_env] rr worlds_succeed(1,2) by auto
  have g: "fst (health_check ready_env) = Returns (JSONResponse rr 200)"
    using health_endpoint_status_codes [where w = ready_env] rr sr by simp
  have x: "fst (comprehensive_health_check cancelled_env) = Raises cancelled"
    by (simp add: health_defs run_simps world_defs)
  have h: "fst (health_check cancelled_env) = Raises cancelled"
    using health_endpoint_status_codes [where w = cancelled_env] x by simp
  from rf f have f': "\<exists>r. fst (comprehensive_health_check failing_env) = Returns r
        \<and> fst (health_check failing_env) = Returns (JSONResponse r 503)"
    by blast
  from rr g have g': "\<exists>r. fst (comprehensive_health_check ready_env) = Returns r
        \<and> fst (health_check ready_env) = Returns (JSONResponse r 200)"
    by blast
  from a b kinds c d f' g' x h show ?thesis by (intro conjI)
qed

section \<open>The lifespan\<close>

text \<open>
  Claim C8, as the code has it.  The claim says that on shutdown the lifespan calls
  \<^verbatim>\<open>close()\<close> to release the resources of the backend instance.  In the code the body of
  \<open>close_extensions\<close> is empty.  In the world \<open>ready_env\<close>, where start-up and serving succeed,
  the calls of a whole lifespan are \<^verbatim>\<open>Log.start\<close>, \<^verbatim>\<open>ext_manager.init_vector\<close> and \<^verbatim>\<open>Log.close\<close>:
  between entering \<open>close_extensions\<close> and the exit nothing is called on the backend.
\<close>

theorem lifespan_releases_nothing:
  "lifespan ready_env =
     (Returns (),
      [Enter ''lifespan'', Call ''Log.start'', Enter ''initialize_extensions'',
       Call ''ext_manager.init_vector'', Yield, Enter ''close_extensions'', Call ''Log.close''])
   \<and> close_extensions = (Returns (), [Enter ''close_extensions''])"
  by (simp add: lifespan_defs prod_eq_iff fst_try_finally snd_try_finally run_simps world_defs)

text \<open>
  Claim C8, amended.  Every execution of the lifespan that exits has entered
  \<open>close_extensions\<close> and then called \<^verbatim>\<open>Log.close\<close> as its last two steps; this holds when
  \<open>initialize_extensions\<close> raised and when \<^verbatim>\<open>Log.start\<close> raised, in which cases nothing runs in
  between.  The lifespan exits whenever none of its calls hangs.  \<open>close_extensions\<close> itself
  makes no call: it releases nothing.
\<close>

theorem lifespan_always_invokes_close_extensions:
  "(fst (lifespan w) \<noteq> Hangs
      \<longrightarrow> (\<exists>t. snd (lifespan w) = t @ [Enter ''close_extensions'', Call ''Log.close'']))
   \<and> (Log_start w = Returns () \<and> init_vector w = Raises e
      \<longrightarrow> snd (lifespan w) =
           [Enter ''lifespan'', Call ''Log.start'', Enter ''initialize_extensions'',
            Call ''ext_manager.init_vector'', Enter ''close_extensions'', Call ''Log.close''])
   \<and> (Log_start w = Raises e
      \<longrightarrow> snd (lifespan w) =
           [Enter ''lifespan'', Call ''Log.start'', Enter ''close_extensions'',
            Call ''Log.close''])
   \<and> (completes (Log_start w) \<and> completes (init_vector w) \<and> completes (serving w)
        \<and> completes (Log_close w)
      \<longrightarrow> fst (lifespan w) \<noteq> Hangs)
   \<and> close_extensions = (Returns (), [Enter ''close_extensions''])"
  by (cases "Log_start w"; cases "init_vector w"; cases "serving w"; cases "Log_close w")
     (simp_all add: lifespan_defs prod_eq_iff fst_try_finally snd_try_finally run_simps)

theorem lifespan_always_invokes_close_extensions_witness:
  "Log_start (ready_env\<lparr>init_vector := Raises refused\<rparr>) = Returns ()
   \<and> init_vector (ready_env\<lparr>init_vector := Raises refused\<rparr>) = Raises refused
   \<and> lifespan (ready_env\<lparr>init_vector := Raises refused\<rparr>) =
        (Raises refused,
         [Enter ''lifespan'', Call ''Log.start'', Enter ''initialize_extensions'',
          Call ''ext_manager.init_vector'', Enter ''close_extensions'', Call ''Log.close''])
   \<and> Log_start (ready_env\<lparr>Log_start := Raises refused\<rparr>) = Raises refused
   \<and> lifespan (ready_env\<lparr>Log_start := Raises refused\<rparr>) =
        (Raises refused,
         [Enter ''lifespan'', Call ''Log.start'', Enter ''close_extensions'',
          Call ''Log.close''])
   \<and> fst (lifespan ready_env) \<noteq> Hangs
   \<and> (\<exists>t. snd (lifespan ready_env) = t @ [Enter ''close_extensions'', Call ''Log.close''])"
proof -
  have calls: "Log_start (ready_env\<lparr>init_vector := Raises refused\<rparr>) = Returns ()"
    "init_vector (ready_env\<lparr>init_vector := Raises refused\<rparr>) = Raises refused"
    "Log_start (ready_env\<lparr>Log_start := Raises refused\<rparr>) = Raises refused"
    "completes (Log_start ready_env) \<and> completes (init_vector ready_env)
       \<and> completes (serving ready_env) \<and> completes (Log_close ready_env)"
    by (simp_all add: world_defs)
  have outcomes: "fst (lifespan (ready_env\<lparr>init_vector := Raises refused\<rparr>)) = Raises refused"
    "fst (lifespan (ready_env\<lparr>Log_start := Raises refused\<rparr>)) = Raises refused"
    by (simp_all add: lifespan_defs fst_try_finally run_simps world_defs)
  from lifespan_always_invokes_close_extensions
    [of "ready_env\<lparr>init_vector := Raises refused\<rparr>" refused] calls
  have a: "snd (lifespan (ready_env\<lparr>init_vector := Raises refused\<rparr>)) =
        [Enter ''lifespan'', Call ''Log.start'', Enter ''initialize_extensions'',
         Call ''ext_manager.init_vector'', Enter ''close_extensions'', Call ''Log.close'']"
    by blast
  from lifespan_always_invokes_close_extensions
    [of "ready_env\<lparr>Log_start := Raises refused\<rparr>" refused] calls
  have b: "snd (lifespan (ready_env\<lparr>Log_start := Raises refused\<rparr>)) =
        [Enter ''lifespan'', Call ''Log.start'', Enter ''close_extensions'', Call ''Log.close'']"
    by blast
  from lifespan_always_invokes_close_extensions [of ready_env refused] calls
  have c: "fst (lifespan ready_env) \<noteq> Hangs"
    "\<exists>t. snd (lifespan ready_env) = t @ [Enter ''close_extensions'', Call ''Log.close'']"
    by blast+
  from calls outcomes a b c show ?thesis
    by (simp add: prod_eq_iff)
qed

end
